theory Spec2Isabelle
  imports Complex_Main
begin


section \<open>Floating-point cells\<close>

text \<open>
  A cell of a numeric pandas column, or a Python float, is a finite number, one of the two
  infinities, or NaN (which pandas also uses as its null marker). Finite numbers are
  idealised as reals: rounding and overflow of IEEE doubles are not modelled, every other
  case of the arithmetic is. Zero has no sign here; the one division of the source whose
  divisor can be zero is \<open>engine / (engine + idle)\<close>, where a zero sum is \<open>+0.0\<close>
  unless the dividend is zero as well.
\<close>

datatype fl = Fin real | PInf | NInf | NaN

fun fneg :: "fl \<Rightarrow> fl" where
  "fneg (Fin a) = Fin (- a)"
| "fneg PInf = NInf"
| "fneg NInf = PInf"
| "fneg NaN = NaN"

fun fadd :: "fl \<Rightarrow> fl \<Rightarrow> fl" where
  "fadd NaN y = NaN"
| "fadd x NaN = NaN"
| "fadd (Fin a) (Fin b) = Fin (a + b)"
| "fadd PInf NInf = NaN"
| "fadd NInf PInf = NaN"
| "fadd PInf y = PInf"
| "fadd x PInf = PInf"
| "fadd NInf y = NInf"
| "fadd x NInf = NInf"

definition fsub :: "fl \<Rightarrow> fl \<Rightarrow> fl" where
  "fsub x y = fadd x (fneg y)"

text \<open>The sign of an infinite product or quotient, given the sign of the finite operand.\<close>

definition signed_inf :: "bool \<Rightarrow> fl" where
  "signed_inf positive = (if positive then PInf else NInf)"

fun fmul :: "fl \<Rightarrow> fl \<Rightarrow> fl" where
  "fmul NaN y = NaN"
| "fmul x NaN = NaN"
| "fmul (Fin a) (Fin b) = Fin (a * b)"
| "fmul (Fin a) PInf = (if a = 0 then NaN else signed_inf (0 < a))"
| "fmul (Fin a) NInf = (if a = 0 then NaN else signed_inf (a < 0))"
| "fmul PInf (Fin b) = (if b = 0 then NaN else signed_inf (0 < b))"
| "fmul NInf (Fin b) = (if b = 0 then NaN else signed_inf (b < 0))"
| "fmul PInf PInf = PInf"
| "fmul NInf NInf = PInf"
| "fmul PInf NInf = NInf"
| "fmul NInf PInf = NInf"

fun fdiv :: "fl \<Rightarrow> fl \<Rightarrow> fl" where
  "fdiv NaN y = NaN"
| "fdiv x NaN = NaN"
| "fdiv (Fin a) (Fin b) =
     (if b \<noteq> 0 then Fin (a / b) else if a = 0 then NaN else signed_inf (0 < a))"
| "fdiv (Fin a) PInf = Fin 0"
| "fdiv (Fin a) NInf = Fin 0"
| "fdiv PInf (Fin b) = signed_inf (0 \<le> b)"
| "fdiv NInf (Fin b) = signed_inf (b < 0)"
| "fdiv PInf y = NaN"
| "fdiv NInf y = NaN"

text \<open>Comparisons: every comparison with NaN is false.\<close>

fun flt :: "fl \<Rightarrow> fl \<Rightarrow> bool" where
  "flt NaN y = False"
| "flt x NaN = False"
| "flt (Fin a) (Fin b) = (a < b)"
| "flt x NInf = False"
| "flt PInf y = False"
| "flt NInf y = True"
| "flt x PInf = True"

definition fgt :: "fl \<Rightarrow> fl \<Rightarrow> bool" where
  "fgt x y = flt y x"

fun feq :: "fl \<Rightarrow> fl \<Rightarrow> bool" where
  "feq (Fin a) (Fin b) = (a = b)"
| "feq PInf PInf = True"
| "feq NInf NInf = True"
| "feq x y = False"

text \<open>\<open>Series.fillna(v)\<close> on one cell.\<close>

definition fillna :: "fl \<Rightarrow> fl \<Rightarrow> fl" where
  "fillna v x = (if x = NaN then v else x)"

text \<open>Python truthiness of an optional string argument (\<open>if site_id:\<close>).\<close>

definition truthy :: "string option \<Rightarrow> bool" where
  "truthy s = (case s of None \<Rightarrow> False | Some t \<Rightarrow> t \<noteq> [])"

section \<open>Rows of the data frames\<close>

text \<open>
  A timestamp is modelled by its calendar day, counted in days from 1970-01-01; \<open>None\<close>
  is NaT. One record serves the training frame (\<open>self.data\<close>) and the live frame
  returned by \<open>_load_database_data\<close>: both carry the same columns once the calculated
  columns are added. Column names are the frame's own.
\<close>

type_synonym date = int

record row =
  Equipment_ID :: string
  Type :: string
  User_ID :: "string option"
  Check_Out_Date :: "date option"
  Check_in_Date :: "date option"
  Engine_Hours_Day :: fl
  Idle_Hours_Day :: fl
  rental_duration :: fl
  utilization_ratio :: fl
  efficiency_score :: fl
  month :: fl
  day_of_week :: fl
  quarter :: fl
  is_weekend :: fl
  seasonal_factor :: fl
  site_equipment_count :: fl
  site_avg_utilization :: fl
  equipment_site_popularity :: fl
  equipment_type_encoded :: fl
  site_encoded :: fl
  daily_demand :: fl
  demand_7d_avg :: fl
  demand_30d_avg :: fl

section \<open>Utilization and efficiency, as each path computes them\<close>

text \<open>
  \<open>_preprocess_data\<close> (training frame):
  \<^verbatim>\<open>total_hours = engine + idle
utilization_ratio = np.where(total_hours > 0, engine / total_hours, 0)
efficiency_score = (engine * 0.6 + (24 - idle) * 0.4) / 24\<close>
\<close>

definition preprocess_utilization_ratio :: "fl \<Rightarrow> fl \<Rightarrow> fl" where
  "preprocess_utilization_ratio engine idle =
     (let total_hours = fadd engine idle
      in if fgt total_hours (Fin 0) then fdiv engine total_hours else Fin 0)"

definition preprocess_efficiency_score :: "fl \<Rightarrow> fl \<Rightarrow> fl" where
  "preprocess_efficiency_score engine idle =
     fdiv (fadd (fmul engine (Fin 0.6)) (fmul (fsub (Fin 24) idle) (Fin 0.4))) (Fin 24)"

text \<open>
  \<open>detect_anomalies\<close> (live frame): both columns are computed first and filled after.
  \<^verbatim>\<open>utilization_ratio = engine / (engine + idle)
efficiency_score = utilization_ratio * (engine / 8.0)
utilization_ratio = utilization_ratio.fillna(0.5)
efficiency_score = efficiency_score.fillna(0.5)\<close>
\<close>

definition anomaly_utilization_ratio :: "fl \<Rightarrow> fl \<Rightarrow> fl" where
  "anomaly_utilization_ratio engine idle = fillna (Fin 0.5) (fdiv engine (fadd engine idle))"

definition anomaly_efficiency_score :: "fl \<Rightarrow> fl \<Rightarrow> fl" where
  "anomaly_efficiency_score engine idle =
     fillna (Fin 0.5) (fmul (fdiv engine (fadd engine idle)) (fdiv engine (Fin 8)))"

text \<open>
  \<open>_add_calculated_columns_to_db_data\<close> (live frame, for forecasting): the utilization
  is filled before the efficiency is computed from it.
\<close>

definition db_utilization_ratio :: "fl \<Rightarrow> fl \<Rightarrow> fl" where
  "db_utilization_ratio engine idle = fillna (Fin 0.5) (fdiv engine (fadd engine idle))"

definition db_efficiency_score :: "fl \<Rightarrow> fl \<Rightarrow> fl" where
  "db_efficiency_score engine idle =
     fillna (Fin 0.5) (fmul (db_utilization_ratio engine idle) (fdiv engine (Fin 8)))"


text \<open>A finite value between 0 and 1.\<close>

definition in_unit_interval :: "fl \<Rightarrow> bool" where
  "in_unit_interval x = (case x of Fin u \<Rightarrow> 0 \<le> u \<and> u \<le> 1 | PInf \<Rightarrow> False
                         | NInf \<Rightarrow> False | NaN \<Rightarrow> False)"

section \<open>The state of a \<open>SmartMLSystem\<close>\<close>

text \<open>
  The fitted scikit-learn objects are opaque: each is modelled by what it computes on one
  sample, with \<open>None\<close> for a call that raises (an estimator that is not fitted, a value
  it rejects). A label encoder is the map from the labels it was fitted on to their
  codes; \<open>transform\<close> raises on any other label. The isolation forest is fitted by
  training but never consulted afterwards, and is left out.
\<close>

type_synonym regressor = "fl list \<Rightarrow> real option"
type_synonym standard_scaler = "fl list \<Rightarrow> fl list option"
type_synonym label_encoder = "string \<rightharpoonup> nat"

record smart_ml_system =
  data :: "row list option"
  scaler :: standard_scaler
  demand_forecaster :: regressor
  site_specific_models :: "string \<rightharpoonup> regressor"
  equipment_encoder :: label_encoder
  site_encoder :: label_encoder
  models_trained :: bool

text \<open>The error results (\<open>{"error": message}\<close>) of the two public calls.\<close>

datatype error =
    Models_not_trained
  | No_database_data
  | Equipment_not_found string
  | No_valid_data
  | No_data_available
  | No_data_found
  | Error_detecting_anomalies
  | Error_forecasting_demand

section \<open>The anomaly scorer\<close>

record anomaly =
  equipment_id :: string
  equipment_type :: string
  alert_type :: string
  severity :: string
  site_id :: string
  anomaly_score :: real
  engine_hours :: fl
  idle_hours :: fl
  utilization :: fl
  efficiency :: fl

record anomaly_summary =
  total_anomalies :: nat
  total_records :: nat
  active_rentals :: nat
  anomaly_rate :: real
  equipment_affected :: nat
  sites_affected :: nat

record anomaly_result =
  anomalies :: "anomaly list"
  summary :: anomaly_summary

text \<open>
  The metric columns of the copy of the frame that \<open>detect_anomalies\<close> works on: the two
  ratios are computed from the hours as loaded, then the hours themselves are filled
  (6.0 and 2.0).
\<close>

definition calculate_metrics :: "row \<Rightarrow> row" where
  "calculate_metrics r =
     r\<lparr>utilization_ratio := anomaly_utilization_ratio (Engine_Hours_Day r) (Idle_Hours_Day r),
       efficiency_score := anomaly_efficiency_score (Engine_Hours_Day r) (Idle_Hours_Day r),
       Engine_Hours_Day := fillna (Fin 6) (Engine_Hours_Day r),
       Idle_Hours_Day := fillna (Fin 2) (Idle_Hours_Day r)\<rparr>"

text \<open>
  The three rules, evaluated one after the other on a row; each appends its type and
  overwrites the severity. The result is the list \<open>anomaly_types\<close> and the severity.
\<close>

definition rule_low_utilization :: "fl \<Rightarrow> bool" where
  "rule_low_utilization u = flt u (Fin 0.35)"

definition rule_high_idle_time :: "fl \<Rightarrow> bool" where
  "rule_high_idle_time idle = fgt idle (Fin 6)"

definition rule_no_usage :: "fl \<Rightarrow> fl \<Rightarrow> bool" where
  "rule_no_usage engine idle = (feq engine (Fin 0) \<and> fgt idle (Fin 0))"

definition apply_rules :: "fl \<Rightarrow> fl \<Rightarrow> fl \<Rightarrow> string list \<times> string" where
  "apply_rules engine idle u =
     (let s0 = ([], ''medium'');
          s1 = (if rule_low_utilization u
                then (fst s0 @ [''low_utilization''], ''medium'') else s0);
          s2 = (if rule_high_idle_time idle
                then (fst s1 @ [''high_idle_time''], ''high'') else s1);
          s3 = (if rule_no_usage engine idle
                then (fst s2 @ [''no_usage''], ''high'') else s2)
      in s3)"

text \<open>One iteration of the loop over the rows: the record appended, if any.\<close>

definition scan_row :: "row \<Rightarrow> anomaly option" where
  "scan_row r =
     (let engine = Engine_Hours_Day r; idle = Idle_Hours_Day r; u = utilization_ratio r;
          (anomaly_types, sev) = apply_rules engine idle u
      in if anomaly_types \<noteq> []
         then Some \<lparr>equipment_id = Equipment_ID r, equipment_type = Type r,
                    alert_type = hd anomaly_types, severity = sev,
                    site_id = (case User_ID r of Some s \<Rightarrow> s | None \<Rightarrow> ''UNASSIGNED''),
                    anomaly_score = - 0.5,
                    engine_hours = engine, idle_hours = idle, utilization = u,
                    efficiency = efficiency_score r\<rparr>
         else None)"

fun scan_rows :: "row list \<Rightarrow> anomaly list" where
  "scan_rows [] = []"
| "scan_rows (r # rs) =
     (case scan_row r of Some a \<Rightarrow> a # scan_rows rs | None \<Rightarrow> scan_rows rs)"

definition summarize :: "nat \<Rightarrow> row list \<Rightarrow> anomaly list \<Rightarrow> anomaly_summary" where
  "summarize total_equipment_count equipment_data found =
     (let active_rental_count = length equipment_data
      in \<lparr>total_anomalies = length found,
          total_records = total_equipment_count,
          active_rentals = active_rental_count,
          anomaly_rate = (if active_rental_count > 0
                          then real (length found) / real active_rental_count * 100 else 0),
          equipment_affected = length (remdups (map equipment_id found)),
          sites_affected =
            length (remdups (filter (\<lambda>s. s \<noteq> ''UNASSIGNED'') (map site_id found)))\<rparr>)"

text \<open>
  \<open>detect_anomalies(equipment_id)\<close>. The arguments besides the request are what the
  method reads from its collaborators: the count of the Equipment table, and the frame
  returned by \<open>_load_database_data\<close> (\<open>None\<close> when that is \<open>None\<close>). The time
  stamp of the result is left out. In this typed model no step of the body raises, so
  the outer handler's error is never returned.
\<close>

definition detect_anomalies ::
  "smart_ml_system \<Rightarrow> nat \<Rightarrow> row list option \<Rightarrow> string option \<Rightarrow> error + anomaly_result" where
  "detect_anomalies self total_equipment_count db_data equipment_id_arg =
     (if \<not> models_trained self then Inl Models_not_trained
      else case db_data of
        None \<Rightarrow> Inl No_database_data
      | Some frame \<Rightarrow>
          if frame = [] then Inl No_database_data
          else
            let selected = (if truthy equipment_id_arg
                            then filter (\<lambda>r. Some (Equipment_ID r) = equipment_id_arg) frame
                            else frame)
            in if truthy equipment_id_arg \<and> selected = []
               then Inl (Equipment_not_found (case equipment_id_arg of Some e \<Rightarrow> e | None \<Rightarrow> []))
               else
                 let equipment_data = map calculate_metrics selected;
                     feature_data =
                       filter (\<lambda>r. Engine_Hours_Day r \<noteq> NaN \<and> Idle_Hours_Day r \<noteq> NaN \<and>
                                    utilization_ratio r \<noteq> NaN \<and> efficiency_score r \<noteq> NaN)
                              equipment_data
                 in if feature_data = [] then Inl No_valid_data
                    else
                      let found = scan_rows equipment_data
                      in Inr \<lparr>anomalies = found,
                              summary = summarize total_equipment_count equipment_data found\<rparr>)"

section \<open>Calendar\<close>

text \<open>
  What the source reads from a timestamp: \<open>weekday()\<close>/\<open>dayofweek\<close> (Monday is 0),
  \<open>month\<close> and \<open>quarter\<close>, computed here from the day number in the proleptic
  Gregorian calendar (day 0 is Thursday 1970-01-01).
\<close>

definition weekday :: "date \<Rightarrow> int" where
  "weekday d = (d + 3) mod 7"

definition month_of :: "date \<Rightarrow> int" where
  "month_of d =
     (let z = d + 719468;
          doe = z mod 146097;
          yoe = (doe - doe div 1460 + doe div 36524 - doe div 146096) div 365;
          doy = doe - (365 * yoe + yoe div 4 - yoe div 100);
          mp = (5 * doy + 2) div 153
      in if mp < 10 then mp + 3 else mp - 9)"

definition quarter_of :: "date \<Rightarrow> int" where
  "quarter_of d = (month_of d - 1) div 3 + 1"

definition day_name :: "date \<Rightarrow> string" where
  "day_name d =
     [''Monday'', ''Tuesday'', ''Wednesday'', ''Thursday'', ''Friday'', ''Saturday'',
      ''Sunday''] ! nat (weekday d)"

section \<open>Forecasting\<close>

text \<open>
  Python's \<open>round(x, ndigits)\<close> on the idealised reals: to the nearest multiple of
  \<open>10 ^ - ndigits\<close>, a tie going to the even one.
\<close>

definition py_round :: "real \<Rightarrow> nat \<Rightarrow> real" where
  "py_round x ndigits =
     (let y = x * 10 ^ ndigits; f = \<lfloor>y\<rfloor>; r = y - of_int f
      in (if r < 1/2 then of_int f
          else if 1/2 < r then of_int f + 1
          else if even f then of_int f else of_int f + 1) / 10 ^ ndigits)"

text \<open>\<open>Series.mean()\<close>: NaN cells are skipped; the mean of no cells is NaN.\<close>

definition series_mean :: "fl list \<Rightarrow> fl" where
  "series_mean xs =
     (let vs = filter (\<lambda>x. x \<noteq> NaN) xs
      in if vs = [] then NaN else fdiv (foldl fadd (Fin 0) vs) (Fin (real (length vs))))"

text \<open>\<open>Series.max()\<close> of the check-out dates: NaT cells are skipped; NaT if none is left.\<close>

fun max_check_out_date :: "row list \<Rightarrow> date option" where
  "max_check_out_date [] = None"
| "max_check_out_date (r # rs) =
     (case (Check_Out_Date r, max_check_out_date rs) of
        (None, m) \<Rightarrow> m
      | (Some d, None) \<Rightarrow> Some d
      | (Some d, Some m) \<Rightarrow> Some (max d m))"

text \<open>
  \<open>_prepare_forecast_features\<close>: the 14 features in the order of the training columns.
  \<open>None\<close> is the ValueError of an encoder asked for a label it was not fitted on.
\<close>

definition prepare_forecast_features ::
  "smart_ml_system \<Rightarrow> string option \<Rightarrow> string option \<Rightarrow> date \<Rightarrow> row list \<Rightarrow> fl list option" where
  "prepare_forecast_features self equipment_type_arg site_id_arg future_date filtered_data =
     (case (if truthy equipment_type_arg
            then (case equipment_type_arg of
                    Some t \<Rightarrow> equipment_encoder self t | None \<Rightarrow> None)
            else Some 0) of
        None \<Rightarrow> None
      | Some equipment_encoded \<Rightarrow>
     (case (if truthy site_id_arg
            then (case site_id_arg of Some s \<Rightarrow> site_encoder self s | None \<Rightarrow> None)
            else Some 0) of
        None \<Rightarrow> None
      | Some site_enc \<Rightarrow>
          let m = month_of future_date;
              dow = weekday future_date;
              q = quarter_of future_date;
              weekend = (if dow \<in> {5, 6} then 1 else 0);
              seasonal = (if m \<in> {6, 7, 8} then 1.3
                          else if m \<in> {12, 1, 2} then 0.7
                          else if m \<in> {3, 4, 5} then 1.1 else 1.0);
              nonempty = (filtered_data \<noteq> []);
              site_count = (if nonempty then site_equipment_count (hd filtered_data)
                            else Fin 0);
              site_avg = (if nonempty then site_avg_utilization (hd filtered_data)
                          else Fin 0.5);
              popularity = (if nonempty then equipment_site_popularity (hd filtered_data)
                            else Fin 1);
              d7 = (if nonempty then demand_7d_avg (last filtered_data) else Fin 0);
              d30 = (if nonempty then demand_30d_avg (last filtered_data) else Fin 0);
              duration = (if nonempty then series_mean (map rental_duration filtered_data)
                          else Fin 30);
              util = (if nonempty then series_mean (map utilization_ratio filtered_data)
                      else Fin 0.5)
          in Some [Fin (real equipment_encoded), Fin (real site_enc), Fin (real_of_int m),
                   Fin (real_of_int dow), Fin (real_of_int q), Fin weekend, Fin seasonal,
                   site_count, site_avg, popularity, d7, d30, duration, util]))"

text \<open>
  The choice of model inside the loop of \<open>forecast_demand\<close>:
  \<^verbatim>\<open>if site_id and site_id in self.site_specific_models and equipment_type:
    site_features = features[:8]
    predicted_demand = self.site_specific_models[site_id].predict([site_features])[0]
else:
    features_scaled = self.scaler.transform([features])
    predicted_demand = self.demand_forecaster.predict(features_scaled)[0]\<close>
\<close>

definition uses_site_model :: "smart_ml_system \<Rightarrow> string option \<Rightarrow> string option \<Rightarrow> bool" where
  "uses_site_model self equipment_type_arg site_id_arg =
     (truthy site_id_arg \<and>
      (case site_id_arg of Some s \<Rightarrow> s \<in> dom (site_specific_models self) | None \<Rightarrow> False) \<and>
      truthy equipment_type_arg)"

definition site_features :: "fl list \<Rightarrow> fl list" where
  "site_features features = take 8 features"

definition predict_demand ::
  "smart_ml_system \<Rightarrow> string option \<Rightarrow> string option \<Rightarrow> fl list \<Rightarrow> real option" where
  "predict_demand self equipment_type_arg site_id_arg features =
     (if uses_site_model self equipment_type_arg site_id_arg
      then (case site_id_arg of
              Some s \<Rightarrow> (case site_specific_models self s of
                           Some site_model \<Rightarrow> site_model (site_features features)
                         | None \<Rightarrow> None)
            | None \<Rightarrow> None)
      else (case scaler self features of
              Some features_scaled \<Rightarrow> demand_forecaster self features_scaled
            | None \<Rightarrow> None))"

text \<open>
  \<open>_apply_realistic_constraints\<close>. The raw prediction of a fitted regressor is a finite
  number. \<open>max_demand\<close> is the cap as the statements before the scaling leave it.
\<close>

definition max_demand :: "row list \<Rightarrow> string option \<Rightarrow> string option \<Rightarrow> real" where
  "max_demand filtered_data equipment_type_arg site_id_arg =
     (let cap0 = 20;
          cap1 = (if truthy site_id_arg \<and> site_id_arg \<noteq> Some ''UNASSIGNED''
                  then (let site_equipment = filter (\<lambda>r. User_ID r = site_id_arg) filtered_data
                        in if length site_equipment > 0
                           then min cap0 (real (length site_equipment) * 2) else cap0)
                  else cap0);
          cap2 = (if truthy equipment_type_arg
                  then (let equipment_data =
                              filter (\<lambda>r. Some (Type r) = equipment_type_arg) filtered_data
                        in if length equipment_data > 0
                           then min cap1 (real (length equipment_data) * 1.5) else cap1)
                  else cap1)
      in cap2)"

definition apply_realistic_constraints ::
  "real \<Rightarrow> date \<Rightarrow> row list \<Rightarrow> string option \<Rightarrow> string option \<Rightarrow> real" where
  "apply_realistic_constraints predicted_demand future_date filtered_data
       equipment_type_arg site_id_arg =
     (let min_demand = 0;
          cap = max_demand filtered_data equipment_type_arg site_id_arg;
          p1 = (if weekday future_date \<ge> 5 then predicted_demand * 0.6 else predicted_demand);
          p2 = (if month_of future_date \<in> {12, 1, 2} then p1 * 0.8 else p1)
      in max min_demand (min cap p2))"

text \<open>
  \<open>_calculate_forecast_confidence\<close>. When every check-out date of the frame is NaT the
  difference of dates is NaT, its \<open>days\<close> is NaN, and Python's \<open>max(0.5, nan)\<close> is 0.5.
\<close>

definition calculate_forecast_confidence ::
  "row list \<Rightarrow> string option \<Rightarrow> string option \<Rightarrow> date \<Rightarrow> real" where
  "calculate_forecast_confidence filtered_data equipment_type_arg site_id_arg future_date =
     (let base_confidence = 0.7;
          data_points = length filtered_data;
          data_factor = (if data_points \<ge> 100 then 1.0
                         else if data_points \<ge> 50 then 0.9
                         else if data_points \<ge> 20 then 0.8 else 0.6);
          site_factor =
            (if truthy site_id_arg \<and> site_id_arg \<noteq> Some ''UNASSIGNED''
             then (let site_data = filter (\<lambda>r. User_ID r = site_id_arg) filtered_data
                   in if length site_data \<ge> 10 then 1.0
                      else if length site_data \<ge> 5 then 0.9 else 0.7)
             else 1.0);
          equipment_factor =
            (if truthy equipment_type_arg
             then (let equipment_data =
                         filter (\<lambda>r. Some (Type r) = equipment_type_arg) filtered_data
                   in if length equipment_data \<ge> 20 then 1.0
                      else if length equipment_data \<ge> 10 then 0.9 else 0.8)
             else 1.0);
          time_factor =
            (case max_check_out_date filtered_data of
               None \<Rightarrow> 0.5
             | Some last_date \<Rightarrow>
                 (let days_from_last = future_date - last_date
                  in max 0.5 (1.0 - real_of_int days_from_last * 0.01)));
          c = base_confidence * data_factor * site_factor * equipment_factor * time_factor
      in min 0.95 (max 0.3 c))"

record forecast =
  fc_date :: date
  fc_day_of_week :: string
  predicted_demand :: real
  confidence :: real

record forecast_result =
  fr_equipment_type :: "string option"
  fr_site_id :: "string option"
  forecast_days :: int
  forecasts :: "forecast list"
  total_predicted_demand :: real
  average_daily_demand :: real
  peak_demand_day :: forecast
  low_demand_day :: forecast

text \<open>One iteration of the loop over the future dates; \<open>None\<close> when a step raises.\<close>

definition forecast_day ::
  "smart_ml_system \<Rightarrow> string option \<Rightarrow> string option \<Rightarrow> row list \<Rightarrow> date \<Rightarrow> forecast option" where
  "forecast_day self equipment_type_arg site_id_arg filtered_data future_date =
     (case prepare_forecast_features self equipment_type_arg site_id_arg future_date
             filtered_data of
        None \<Rightarrow> None
      | Some features \<Rightarrow>
          (case predict_demand self equipment_type_arg site_id_arg features of
             None \<Rightarrow> None
           | Some raw \<Rightarrow>
               let constrained = apply_realistic_constraints raw future_date filtered_data
                                   equipment_type_arg site_id_arg;
                   conf = calculate_forecast_confidence filtered_data equipment_type_arg
                            site_id_arg future_date
               in Some \<lparr>fc_date = future_date, fc_day_of_week = day_name future_date,
                         predicted_demand = py_round (max 0 constrained) 1,
                         confidence = py_round conf 2\<rparr>))"

fun forecast_days_loop ::
  "smart_ml_system \<Rightarrow> string option \<Rightarrow> string option \<Rightarrow> row list \<Rightarrow> date list \<Rightarrow> forecast list option"
  where
  "forecast_days_loop self et sid filtered_data [] = Some []"
| "forecast_days_loop self et sid filtered_data (future_date # rest) =
     (case forecast_day self et sid filtered_data future_date of
        None \<Rightarrow> None
      | Some f \<Rightarrow>
          (case forecast_days_loop self et sid filtered_data rest of
             None \<Rightarrow> None
           | Some fs \<Rightarrow> Some (f # fs)))"

text \<open>\<open>max(forecasts, key=...)\<close> and \<open>min(forecasts, key=...)\<close>: the first extremal element.\<close>

fun first_max_by :: "('a \<Rightarrow> real) \<Rightarrow> 'a \<Rightarrow> 'a list \<Rightarrow> 'a" where
  "first_max_by key best [] = best"
| "first_max_by key best (x # xs) = first_max_by key (if key best < key x then x else best) xs"

fun first_min_by :: "('a \<Rightarrow> real) \<Rightarrow> 'a \<Rightarrow> 'a list \<Rightarrow> 'a" where
  "first_min_by key best [] = best"
| "first_min_by key best (x # xs) = first_min_by key (if key x < key best then x else best) xs"

text \<open>
  The frame a forecast is computed from: the live frame, or the training frame when the
  live one is missing or empty, restricted to the requested type and site.
\<close>

definition forecast_source :: "smart_ml_system \<Rightarrow> row list option \<Rightarrow> row list option" where
  "forecast_source self db_data =
     (case db_data of
        None \<Rightarrow> data self
      | Some frame \<Rightarrow> if frame = [] then data self else Some frame)"

definition filter_frame :: "string option \<Rightarrow> string option \<Rightarrow> row list \<Rightarrow> row list" where
  "filter_frame equipment_type_arg site_id_arg frame =
     (let by_type = (if truthy equipment_type_arg
                     then filter (\<lambda>r. Some (Type r) = equipment_type_arg) frame else frame);
          by_site = (if truthy site_id_arg \<and> site_id_arg \<noteq> Some ''UNASSIGNED''
                     then filter (\<lambda>r. User_ID r = site_id_arg) by_type else by_type)
      in by_site)"

text \<open>
  \<open>forecast_demand(equipment_type, site_id, days_ahead)\<close>; \<open>db_data\<close> is the frame
  returned by \<open>_load_database_data\<close>. When no check-out date of the filtered frame is
  valid, the source falls back to \<open>datetime.now()\<close>, a plain \<open>datetime\<close>: the first
  read of its \<open>dayofweek\<close> in \<open>_prepare_forecast_features\<close> raises, and with no
  future date at all the division by \<open>days_ahead\<close> or the \<open>max\<close> of the empty list
  does; either way the outer handler returns an error. The trend fields and the time
  stamp of the result are left out.
\<close>

definition forecast_demand ::
  "smart_ml_system \<Rightarrow> row list option \<Rightarrow> string option \<Rightarrow> string option \<Rightarrow> int \<Rightarrow>
   error + forecast_result" where
  "forecast_demand self db_data equipment_type_arg site_id_arg days_ahead =
     (if \<not> models_trained self then Inl Models_not_trained
      else case forecast_source self db_data of
        None \<Rightarrow> Inl No_data_available
      | Some frame \<Rightarrow>
          let filtered_data = filter_frame equipment_type_arg site_id_arg frame
          in if filtered_data = [] then Inl No_data_found
             else case max_check_out_date filtered_data of
               None \<Rightarrow> Inl Error_forecasting_demand
             | Some last_date \<Rightarrow>
                 let future_dates = map (\<lambda>i. last_date + (int i + 1)) [0..<nat days_ahead]
                 in case forecast_days_loop self equipment_type_arg site_id_arg
                           filtered_data future_dates of
                      None \<Rightarrow> Inl Error_forecasting_demand
                    | Some fs \<Rightarrow>
                        (case fs of
                           [] \<Rightarrow> Inl Error_forecasting_demand
                         | f # rest \<Rightarrow>
                             let total = foldl (\<lambda>acc x. acc + predicted_demand x) 0 fs
                             in Inr \<lparr>fr_equipment_type = equipment_type_arg,
                                     fr_site_id = site_id_arg,
                                     forecast_days = days_ahead,
                                     forecasts = fs,
                                     total_predicted_demand = py_round total 1,
                                     average_daily_demand =
                                       py_round (total / real_of_int days_ahead) 1,
                                     peak_demand_day = first_max_by predicted_demand f rest,
                                     low_demand_day = first_min_by predicted_demand f rest\<rparr>))"

section \<open>Training\<close>

text \<open>
  The numeric columns that training selects by name. \<open>frame[columns].values\<close> is the
  list of the rows' values in the order of \<open>columns\<close>; every name used below is a
  column of the frame.
\<close>

definition numeric_columns :: "(string \<times> (row \<Rightarrow> fl)) list" where
  "numeric_columns =
     [(''Engine Hours/Day'', Engine_Hours_Day), (''Idle Hours/Day'', Idle_Hours_Day),
      (''rental_duration'', rental_duration), (''utilization_ratio'', utilization_ratio),
      (''efficiency_score'', efficiency_score), (''month'', month),
      (''day_of_week'', day_of_week), (''quarter'', quarter), (''is_weekend'', is_weekend),
      (''seasonal_factor'', seasonal_factor),
      (''site_equipment_count'', site_equipment_count),
      (''site_avg_utilization'', site_avg_utilization),
      (''equipment_site_popularity'', equipment_site_popularity),
      (''equipment_type_encoded'', equipment_type_encoded),
      (''site_encoded'', site_encoded), (''daily_demand'', daily_demand),
      (''demand_7d_avg'', demand_7d_avg), (''demand_30d_avg'', demand_30d_avg)]"

definition cell :: "string \<Rightarrow> row \<Rightarrow> fl" where
  "cell name r = (case map_of numeric_columns name of Some get \<Rightarrow> get r | None \<Rightarrow> NaN)"

definition values_of :: "string list \<Rightarrow> row \<Rightarrow> fl list" where
  "values_of columns r = map (\<lambda>name. cell name r) columns"

definition dropna :: "string list \<Rightarrow> row list \<Rightarrow> row list" where
  "dropna columns frame = filter (\<lambda>r. list_all (\<lambda>name. cell name r \<noteq> NaN) columns) frame"

text \<open>The 14 columns of the global model (\<open>_train_models\<close>).\<close>

definition feature_columns :: "string list" where
  "feature_columns =
     [''equipment_type_encoded'', ''site_encoded'', ''month'', ''day_of_week'',
      ''quarter'', ''is_weekend'', ''seasonal_factor'', ''site_equipment_count'',
      ''site_avg_utilization'', ''equipment_site_popularity'', ''demand_7d_avg'',
      ''demand_30d_avg'', ''rental_duration'', ''utilization_ratio'']"

text \<open>The 8 columns of a per-site model (\<open>_train_site_specific_models\<close>).\<close>

definition site_feature_columns :: "string list" where
  "site_feature_columns =
     [''equipment_type_encoded'', ''month'', ''day_of_week'', ''quarter'',
      ''is_weekend'', ''seasonal_factor'', ''demand_7d_avg'', ''demand_30d_avg'']"

definition anomaly_features :: "string list" where
  "anomaly_features =
     [''Engine Hours/Day'', ''Idle Hours/Day'', ''utilization_ratio'', ''efficiency_score'']"

text \<open>
  The scikit-learn calls of training, each by its outcome: the fitted object, or \<open>None\<close>
  (\<open>False\<close>) when the call raises. \<open>evaluate\<close> stands for the prediction on the test
  part and the three metrics computed from it.
\<close>

record learner =
  train_test_split :: "(fl list \<times> fl) list \<Rightarrow> (fl list \<times> fl) list \<times> (fl list \<times> fl) list"
  fit_scaler :: "fl list list \<Rightarrow> standard_scaler option"
  fit_demand_forecaster :: "fl list list \<Rightarrow> fl list \<Rightarrow> regressor option"
  evaluate :: "regressor \<Rightarrow> fl list list \<Rightarrow> fl list \<Rightarrow> bool"
  fit_site_model :: "fl list list \<Rightarrow> fl list \<Rightarrow> regressor option"
  fit_anomaly_detector :: "fl list list \<Rightarrow> bool"

text \<open>\<open>scaler.transform(X)\<close>: raises when it raises on a row.\<close>

fun transform_all :: "standard_scaler \<Rightarrow> fl list list \<Rightarrow> fl list list option" where
  "transform_all sc [] = Some []"
| "transform_all sc (x # xs) =
     (case sc x of
        None \<Rightarrow> None
      | Some y \<Rightarrow> (case transform_all sc xs of None \<Rightarrow> None | Some ys \<Rightarrow> Some (y # ys)))"

text \<open>
  One iteration of the loop of \<open>_train_site_specific_models\<close> over the distinct values
  of the column \<open>User ID\<close>; an exception of the fit is caught inside the loop. Each
  site is visited once and writes only its own key, so the order of the visits does not
  matter to the dictionary that results.
\<close>

definition train_site ::
  "learner \<Rightarrow> row list \<Rightarrow> (string \<rightharpoonup> regressor) \<Rightarrow> string option \<Rightarrow> (string \<rightharpoonup> regressor)" where
  "train_site L frame models site =
     (case site of
        None \<Rightarrow> models
      | Some s \<Rightarrow>
          if s = ''UNASSIGNED'' then models
          else
            let site_data = filter (\<lambda>r. User_ID r = Some s) frame
            in if length site_data < 10 then models
               else
                 let site_rows = dropna site_feature_columns site_data
                 in if length site_rows < 5 then models
                    else (case fit_site_model L (map (values_of site_feature_columns) site_rows)
                                 (map daily_demand site_rows) of
                            Some site_model \<Rightarrow> models(s \<mapsto> site_model)
                          | None \<Rightarrow> models))"

definition train_site_specific_models :: "learner \<Rightarrow> smart_ml_system \<Rightarrow> smart_ml_system" where
  "train_site_specific_models L self =
     (case data self of
        None \<Rightarrow> self
      | Some frame \<Rightarrow>
          self\<lparr>site_specific_models :=
                 foldl (train_site L frame) (site_specific_models self)
                   (remdups (map User_ID frame))\<rparr>)"

text \<open>
  \<open>_train_models\<close>. The two early returns leave the object as it is. After them every
  step runs inside \<open>try\<close>; the handler sets \<open>models_trained = False\<close> on the object as
  the steps before the exception left it.
\<close>

definition train_models :: "learner \<Rightarrow> smart_ml_system \<Rightarrow> smart_ml_system" where
  "train_models L self =
     (case data self of
        None \<Rightarrow> self
      | Some frame \<Rightarrow>
          if length frame < 50 then self
          else
            let clean_data = dropna feature_columns frame
            in if length clean_data < 30 then self
               else
                 let samples = map (\<lambda>r. (values_of feature_columns r, daily_demand r)) clean_data;
                     (train, test) = train_test_split L samples
                 in case fit_scaler L (map fst train) of
                      None \<Rightarrow> self\<lparr>models_trained := False\<rparr>
                    | Some sc \<Rightarrow>
                        let s1 = self\<lparr>scaler := sc\<rparr>
                        in case transform_all sc (map fst train) of
                             None \<Rightarrow> s1\<lparr>models_trained := False\<rparr>
                           | Some X_train_scaled \<Rightarrow>
                        (case transform_all sc (map fst test) of
                             None \<Rightarrow> s1\<lparr>models_trained := False\<rparr>
                           | Some X_test_scaled \<Rightarrow>
                        (case fit_demand_forecaster L X_train_scaled (map snd train) of
                             None \<Rightarrow> s1\<lparr>models_trained := False\<rparr>
                           | Some forecaster \<Rightarrow>
                               let s2 = s1\<lparr>demand_forecaster := forecaster\<rparr>
                               in if \<not> evaluate L forecaster X_test_scaled (map snd test)
                                  then s2\<lparr>models_trained := False\<rparr>
                                  else
                                    let s3 = train_site_specific_models L s2;
                                        anomaly_data = dropna anomaly_features clean_data
                                    in if anomaly_data \<noteq> [] \<and>
                                          \<not> fit_anomaly_detector L
                                              (map (values_of anomaly_features) anomaly_data)
                                       then s3\<lparr>models_trained := False\<rparr>
                                       else s3\<lparr>models_trained := True\<rparr>)))"

section \<open>Construction and reload\<close>

text \<open>
  The files of the models directory, each present or not. \<open>_try_load_models\<close> loads them
  in this order and gives up at the first one that is missing; the per-site models are
  looked up for the keys of \<open>site_specific_models\<close>, which is still empty when the
  constructor calls it.
\<close>

record models_dir =
  anomaly_detector_pkl :: bool
  demand_forecaster_pkl :: "regressor option"
  scaler_pkl :: "standard_scaler option"
  equipment_encoder_pkl :: "label_encoder option"
  site_encoder_pkl :: "label_encoder option"

definition try_load_models :: "models_dir \<Rightarrow> smart_ml_system \<Rightarrow> smart_ml_system \<times> bool" where
  "try_load_models dir self =
     (if \<not> anomaly_detector_pkl dir then (self, False)
      else case demand_forecaster_pkl dir of
        None \<Rightarrow> (self, False)
      | Some forecaster \<Rightarrow>
          let s1 = self\<lparr>demand_forecaster := forecaster\<rparr>
          in case scaler_pkl dir of
               None \<Rightarrow> (s1, False)
             | Some sc \<Rightarrow>
                 let s2 = s1\<lparr>scaler := sc\<rparr>
                 in case equipment_encoder_pkl dir of
                      None \<Rightarrow> (s2, False)
                    | Some ee \<Rightarrow>
                        let s3 = s2\<lparr>equipment_encoder := ee\<rparr>
                        in case site_encoder_pkl dir of
                             None \<Rightarrow> (s3, False)
                           | Some se \<Rightarrow>
                               (s3\<lparr>site_encoder := se, models_trained := True\<rparr>, True))"

text \<open>
  What a construction finds outside the object: the outcome of \<open>pd.read_csv\<close> (\<open>None\<close>
  when it raises), the outcome of \<open>_preprocess_data\<close> on the frame read (the engineered
  frame and the two fitted encoders; \<open>None\<close> when it raises, which nothing in the
  constructor catches), the models directory if there is one, and the learner.
\<close>

record environment =
  read_csv :: "row list option"
  preprocess_data :: "row list \<Rightarrow> (row list \<times> label_encoder \<times> label_encoder) option"
  saved_models :: "models_dir option"
  sklearn :: learner

text \<open>The fields as \<open>__init__\<close> sets them: nothing is fitted, so every call raises.\<close>

definition unfitted :: smart_ml_system where
  "unfitted =
     \<lparr>data = None, scaler = (\<lambda>v. None), demand_forecaster = (\<lambda>v. None),
      site_specific_models = Map.empty, equipment_encoder = Map.empty,
      site_encoder = Map.empty, models_trained = False\<rparr>"

text \<open>\<open>SmartMLSystem()\<close>: the object built, or \<open>None\<close> when the constructor raises.\<close>

definition SmartMLSystem :: "environment \<Rightarrow> smart_ml_system option" where
  "SmartMLSystem env =
     (let self = unfitted\<lparr>data := read_csv env\<rparr>
      in case data self of
           None \<Rightarrow> Some self
         | Some raw \<Rightarrow>
             (case preprocess_data env raw of
                None \<Rightarrow> None
              | Some (frame, ee, se) \<Rightarrow>
                  let s1 = self\<lparr>data := Some frame, equipment_encoder := ee,
                                 site_encoder := se\<rparr>
                  in case saved_models env of
                       None \<Rightarrow> Some (train_models (sklearn env) s1)
                     | Some dir \<Rightarrow>
                         let (s2, loaded) = try_load_models dir s1
                         in if loaded then Some s2
                            else Some (train_models (sklearn env) s2)))"

text \<open>
  The globals of the service that a reload touches, and \<open>on_database_change\<close> run to
  completion: the new object is assigned when the constructor returns, whatever its
  \<open>models_trained\<close>; when the constructor raises, the handler logs and the old object
  stays.
\<close>

record service =
  ml_system :: "smart_ml_system option"
  restart_flag :: bool
  is_reloading :: bool

definition on_database_change :: "environment \<Rightarrow> service \<Rightarrow> service" where
  "on_database_change env svc =
     (if is_reloading svc then svc
      else
        let s1 = svc\<lparr>is_reloading := True\<rparr>;
            s2 = s1\<lparr>restart_flag := True\<rparr>;
            s3 = (case SmartMLSystem env of
                    Some new_system \<Rightarrow> s2\<lparr>ml_system := Some new_system, restart_flag := False\<rparr>
                  | None \<Rightarrow> s2\<lparr>restart_flag := False\<rparr>)
        in s3\<lparr>is_reloading := False\<rparr>)"

section \<open>Concrete frames used in the worked examples\<close>

definition blank_row :: row where
  "blank_row =
     \<lparr>Equipment_ID = [], Type = [], User_ID = None, Check_Out_Date = None,
      Check_in_Date = None, Engine_Hours_Day = NaN, Idle_Hours_Day = NaN,
      rental_duration = NaN, utilization_ratio = NaN, efficiency_score = NaN, month = NaN,
      day_of_week = NaN, quarter = NaN, is_weekend = NaN, seasonal_factor = NaN,
      site_equipment_count = NaN, site_avg_utilization = NaN,
      equipment_site_popularity = NaN, equipment_type_encoded = NaN, site_encoded = NaN,
      daily_demand = NaN, demand_7d_avg = NaN, demand_30d_avg = NaN\<rparr>"

text \<open>A row of the live frame as the Equipment table gives it, before any calculated column.\<close>

definition live_row :: "string \<Rightarrow> string \<Rightarrow> string \<Rightarrow> real \<Rightarrow> real \<Rightarrow> row" where
  "live_row eid ty site engine idle =
     blank_row\<lparr>Equipment_ID := eid, Type := ty, User_ID := Some site,
       Engine_Hours_Day := Fin engine, Idle_Hours_Day := Fin idle\<rparr>"

text \<open>
  The snapshot of three machines: one with no engine hours and five idle hours, one with
  eight idle hours (and ten engine hours), one with utilization 0.2 and two idle hours
  (half an engine hour).
\<close>

definition scenario_snapshot :: "row list" where
  "scenario_snapshot =
     [live_row ''EQ1'' ''Excavator'' ''S1'' 0 5,
      live_row ''EQ2'' ''Crane'' ''S1'' 10 8,
      live_row ''EQ3'' ''Bulldozer'' ''S2'' (1/2) 2]"

definition scenario_result :: anomaly_result where
  "scenario_result =
     \<lparr>anomalies =
        [\<lparr>equipment_id = ''EQ1'', equipment_type = ''Excavator'',
          alert_type = ''low_utilization'', severity = ''high'', site_id = ''S1'',
          anomaly_score = - 0.5, engine_hours = Fin 0, idle_hours = Fin 5,
          utilization = Fin 0, efficiency = Fin 0\<rparr>,
         \<lparr>equipment_id = ''EQ2'', equipment_type = ''Crane'',
          alert_type = ''high_idle_time'', severity = ''high'', site_id = ''S1'',
          anomaly_score = - 0.5, engine_hours = Fin 10, idle_hours = Fin 8,
          utilization = Fin (5/9), efficiency = Fin (25/36)\<rparr>,
         \<lparr>equipment_id = ''EQ3'', equipment_type = ''Bulldozer'',
          alert_type = ''low_utilization'', severity = ''medium'', site_id = ''S2'',
          anomaly_score = - 0.5, engine_hours = Fin (1/2), idle_hours = Fin 2,
          utilization = Fin (1/5), efficiency = Fin (1/80)\<rparr>],
      summary =
        \<lparr>total_anomalies = 3, total_records = 151, active_rentals = 3, anomaly_rate = 100,
         equipment_affected = 3, sites_affected = 2\<rparr>\<rparr>"

text \<open>
  A trained system whose global model always predicts 3, with a per-site model for site
  \<open>S1\<close> that always predicts 2, and encoders fitted on two types and three sites.
\<close>

definition trained_system :: smart_ml_system where
  "trained_system =
     \<lparr>data = None,
      scaler = (\<lambda>v. Some v),
      demand_forecaster = (\<lambda>v. Some 3),
      site_specific_models = [''S1'' \<mapsto> (\<lambda>v. Some 2)],
      equipment_encoder = [''Crane'' \<mapsto> 0, ''Excavator'' \<mapsto> 1],
      site_encoder = [''S1'' \<mapsto> 0, ''S2'' \<mapsto> 1, ''UNASSIGNED'' \<mapsto> 2],
      models_trained = True\<rparr>"

text \<open>
  A frame of three active rentals with their calculated columns; day 19726 is Thursday
  2024-01-04, the latest check-out of the frame.
\<close>

definition forecast_row :: "string \<Rightarrow> string \<Rightarrow> string \<Rightarrow> date \<Rightarrow> row" where
  "forecast_row eid ty site d =
     (live_row eid ty site 6 2)\<lparr>Check_Out_Date := Some d, rental_duration := Fin 30,
        utilization_ratio := Fin (3/4), efficiency_score := Fin (9/16), month := Fin 1,
        day_of_week := Fin 3, quarter := Fin 1, is_weekend := Fin 0,
        seasonal_factor := Fin (7/10), site_equipment_count := Fin 2,
        site_avg_utilization := Fin (3/4), equipment_site_popularity := Fin 1,
        equipment_type_encoded := Fin 1, site_encoded := Fin 0, daily_demand := Fin 1,
        demand_7d_avg := Fin 2, demand_30d_avg := Fin 8\<rparr>"

definition forecast_frame :: "row list" where
  "forecast_frame =
     [forecast_row ''EQ1'' ''Excavator'' ''S1'' 19720,
      forecast_row ''EQ2'' ''Excavator'' ''S1'' 19726,
      forecast_row ''EQ3'' ''Crane'' ''S2'' 19723]"

definition forecast_expected :: forecast_result where
  "forecast_expected =
     \<lparr>fr_equipment_type = None, fr_site_id = None, forecast_days = 3,
      forecasts =
        [\<lparr>fc_date = 19727, fc_day_of_week = ''Friday'',
          predicted_demand = 12 / 5, confidence = 21 / 50\<rparr>,
         \<lparr>fc_date = 19728, fc_day_of_week = ''Saturday'',
          predicted_demand = 7 / 5, confidence = 41 / 100\<rparr>,
         \<lparr>fc_date = 19729, fc_day_of_week = ''Sunday'',
          predicted_demand = 7 / 5, confidence = 41 / 100\<rparr>],
      total_predicted_demand = 26 / 5, average_daily_demand = 17 / 10,
      peak_demand_day =
        \<lparr>fc_date = 19727, fc_day_of_week = ''Friday'',
         predicted_demand = 12 / 5, confidence = 21 / 50\<rparr>,
      low_demand_day =
        \<lparr>fc_date = 19728, fc_day_of_week = ''Saturday'',
         predicted_demand = 7 / 5, confidence = 41 / 100\<rparr>\<rparr>"

text \<open>
  Training frames of 20 and of 50 rows without a null feature, a learner whose fits
  succeed until the last one (the anomaly detector's) raises, and a reload that reads the
  50 rows while a trained system is serving.
\<close>

definition small_frame :: "row list" where
  "small_frame = replicate 20 (forecast_row ''EQ1'' ''Excavator'' ''S1'' 19720)"

definition full_frame :: "row list" where
  "full_frame = replicate 50 (forecast_row ''EQ1'' ''Excavator'' ''S1'' 19720)"

definition raising_learner :: learner where
  "raising_learner =
     \<lparr>train_test_split = (\<lambda>samples. (take 40 samples, drop 40 samples)),
      fit_scaler = (\<lambda>X. Some (\<lambda>v. Some v)),
      fit_demand_forecaster = (\<lambda>X y. Some (\<lambda>v. Some 1)),
      evaluate = (\<lambda>m X y. True),
      fit_site_model = (\<lambda>X y. Some (\<lambda>v. Some 1)),
      fit_anomaly_detector = (\<lambda>X. False)\<rparr>"

definition reload_environment :: environment where
  "reload_environment =
     \<lparr>read_csv = Some full_frame,
      preprocess_data =
        (\<lambda>raw. Some (raw, equipment_encoder trained_system, site_encoder trained_system)),
      saved_models = None,
      sklearn = raising_learner\<rparr>"

definition serving :: service where
  "serving = \<lparr>ml_system = Some trained_system, restart_flag = False, is_reloading = False\<rparr>"

definition forecast_expected_site :: forecast_result where
  "forecast_expected_site =
     \<lparr>fr_equipment_type = Some ''Excavator'', fr_site_id = Some ''S1'', forecast_days = 2,
      forecasts =
        [\<lparr>fc_date = 19727, fc_day_of_week = ''Friday'',
          predicted_demand = 8 / 5, confidence = 3 / 10\<rparr>,
         \<lparr>fc_date = 19728, fc_day_of_week = ''Saturday'',
          predicted_demand = 1, confidence = 3 / 10\<rparr>],
      total_predicted_demand = 13 / 5, average_daily_demand = 13 / 10,
      peak_demand_day =
        \<lparr>fc_date = 19727, fc_day_of_week = ''Friday'',
         predicted_demand = 8 / 5, confidence = 3 / 10\<rparr>,
      low_demand_day =
        \<lparr>fc_date = 19728, fc_day_of_week = ''Saturday'',
         predicted_demand = 1, confidence = 3 / 10\<rparr>\<rparr>"

text \<open>The same reload when the CSV file cannot be read.\<close>

definition unreadable_environment :: environment where
  "unreadable_environment = reload_environment\<lparr>read_csv := None\<rparr>"

text \<open>
  A snapshot whose first machine is healthy (six engine hours, two idle hours) and whose
  second has no engine hours and five idle hours.
\<close>

definition mixed_snapshot :: "row list" where
  "mixed_snapshot =
     [live_row ''EQ7'' ''Crane'' ''S1'' 6 2,
      live_row ''EQ8'' ''Excavator'' ''S2'' 0 5]"

definition mixed_result :: anomaly_result where
  "mixed_result =
     \<lparr>anomalies =
        [\<lparr>equipment_id = ''EQ8'', equipment_type = ''Excavator'',
          alert_type = ''low_utilization'', severity = ''high'', site_id = ''S2'',
          anomaly_score = - 0.5, engine_hours = Fin 0, idle_hours = Fin 5,
          utilization = Fin 0, efficiency = Fin 0\<rparr>],
      summary =
        \<lparr>total_anomalies = 1, total_records = 151, active_rentals = 2, anomaly_rate = 50,
         equipment_affected = 1, sites_affected = 1\<rparr>\<rparr>"

text \<open>
  A training frame of 50 rows of which 25 are active rentals without a rental duration,
  so that 25 rows are left once the rows with a null feature are dropped.
\<close>

definition mostly_null_frame :: "row list" where
  "mostly_null_frame =
     replicate 25 (forecast_row ''EQ1'' ''Excavator'' ''S1'' 19720) @
     replicate 25 ((forecast_row ''EQ2'' ''Excavator'' ''S1'' 19720)\<lparr>rental_duration := NaN\<rparr>)"

text \<open>
  A models directory holding every file, and a construction that reads the 20 rows and
  finds that directory.
\<close>

definition saved_directory :: models_dir where
  "saved_directory =
     \<lparr>anomaly_detector_pkl = True,
      demand_forecaster_pkl = Some (\<lambda>v. Some 3),
      scaler_pkl = Some (\<lambda>v. Some v),
      equipment_encoder_pkl = Some (equipment_encoder trained_system),
      site_encoder_pkl = Some (site_encoder trained_system)\<rparr>"

definition small_saved_environment :: environment where
  "small_saved_environment =
     \<lparr>read_csv = Some small_frame,
      preprocess_data =
        (\<lambda>raw. Some (raw, equipment_encoder trained_system, site_encoder trained_system)),
      saved_models = Some saved_directory,
      sklearn = raising_learner\<rparr>"

text \<open>The same construction when there is no models directory.\<close>

definition small_environment :: environment where
  "small_environment = small_saved_environment\<lparr>saved_models := None\<rparr>"

section \<open>Properties of the anomaly scorer\<close>

lemmas scenario_defs =
  trained_system_def
  scenario_snapshot_def live_row_def blank_row_def truthy_def calculate_metrics_def
  anomaly_utilization_ratio_def anomaly_efficiency_score_def fillna_def scan_row_def
  apply_rules_def rule_low_utilization_def rule_high_idle_time_def rule_no_usage_def
  fgt_def signed_inf_def summarize_def Let_def

lemma scan_rows_set: "a \<in> set (scan_rows rs) \<longleftrightarrow> (\<exists>r \<in> set rs. scan_row r = Some a)"
  by (induction rs) (auto split: option.splits)

lemma detect_anomalies_scans:
  assumes "detect_anomalies self n db eid = Inr res"
  shows "\<exists>selected. anomalies res = scan_rows (map calculate_metrics selected)"
  using assms
  by (auto simp: detect_anomalies_def Let_def split: if_splits option.splits)

lemma scan_row_alert_type:
  assumes "scan_row r = Some a"
  shows "alert_type a =
           (if flt (utilization a) (Fin 0.35) then ''low_utilization''
            else if fgt (idle_hours a) (Fin 6) then ''high_idle_time''
            else ''no_usage'')"
    and "flt (utilization a) (Fin 0.35) \<or> fgt (idle_hours a) (Fin 6) \<or>
         (feq (engine_hours a) (Fin 0) \<and> fgt (idle_hours a) (Fin 0))"
  using assms
  by (auto simp: scan_row_def apply_rules_def rule_low_utilization_def
      rule_high_idle_time_def rule_no_usage_def Let_def split: if_splits)

lemma scan_row_severity:
  assumes "scan_row r = Some a"
  shows "severity a =
           (if fgt (idle_hours a) (Fin 6) \<or>
               (feq (engine_hours a) (Fin 0) \<and> fgt (idle_hours a) (Fin 0))
            then ''high'' else ''medium'')"
  using assms
  by (auto simp: scan_row_def apply_rules_def rule_low_utilization_def
      rule_high_idle_time_def rule_no_usage_def Let_def split: if_splits)

lemma scenario_detect:
  "detect_anomalies trained_system 151 (Some scenario_snapshot) None = Inr scenario_result"
  by (simp add: detect_anomalies_def scenario_result_def scenario_defs)

text \<open>
  A machine with no engine hours and a positive, finite idle time has utilization 0, so
  rule 1 matches it before rule 3 does: it is never reported as \<open>no_usage\<close>.
\<close>

lemma no_usage_is_reported_as_low_utilization:
  assumes "0 < idle"
  shows "map_option alert_type
           (scan_row (calculate_metrics (r\<lparr>Engine_Hours_Day := Fin 0, Idle_Hours_Day := Fin idle\<rparr>)))
         = Some ''low_utilization''"
  using assms by (simp add: scenario_defs)

text \<open>
  Every row scanned gives one anomaly when a rule matches it, typed by the first rule
  that does, and none otherwise; the anomalies come in the order of the rows.
\<close>

lemma scan_row_first_rule:
  "(case scan_row r of Some a \<Rightarrow> [(equipment_id a, alert_type a)] | None \<Rightarrow> []) =
     (if flt (utilization_ratio r) (Fin 0.35) then [(Equipment_ID r, ''low_utilization'')]
      else if fgt (Idle_Hours_Day r) (Fin 6) then [(Equipment_ID r, ''high_idle_time'')]
      else if feq (Engine_Hours_Day r) (Fin 0) \<and> fgt (Idle_Hours_Day r) (Fin 0)
      then [(Equipment_ID r, ''no_usage'')]
      else [])"
  by (simp add: scan_row_def apply_rules_def rule_low_utilization_def
      rule_high_idle_time_def rule_no_usage_def Let_def)

lemma scan_rows_first_rule:
  "map (\<lambda>a. (equipment_id a, alert_type a)) (scan_rows rs) =
     concat (map (\<lambda>r.
       if flt (utilization_ratio r) (Fin 0.35) then [(Equipment_ID r, ''low_utilization'')]
       else if fgt (Idle_Hours_Day r) (Fin 6) then [(Equipment_ID r, ''high_idle_time'')]
       else if feq (Engine_Hours_Day r) (Fin 0) \<and> fgt (Idle_Hours_Day r) (Fin 0)
       then [(Equipment_ID r, ''no_usage'')]
       else []) rs)"
proof (induction rs)
  case Nil
  show ?case by simp
next
  case (Cons r rs)
  have "map (\<lambda>a. (equipment_id a, alert_type a)) (scan_rows (r # rs)) =
          (case scan_row r of Some a \<Rightarrow> [(equipment_id a, alert_type a)] | None \<Rightarrow> []) @
          map (\<lambda>a. (equipment_id a, alert_type a)) (scan_rows rs)"
    by (simp split: option.splits)
  then show ?case
    unfolding scan_row_first_rule Cons.IH by simp
qed

lemma detect_anomalies_scans_every_row:
  assumes "detect_anomalies self n (Some frame) eid = Inr res"
  shows "anomalies res =
           scan_rows (map calculate_metrics
             (if truthy eid then filter (\<lambda>r. Some (Equipment_ID r) = eid) frame
              else frame))"
  using assms
  by (auto simp: detect_anomalies_def Let_def split: if_splits)

lemma mixed_snapshot_detect:
  "detect_anomalies trained_system 151 (Some mixed_snapshot) None = Inr mixed_result"
  by (simp add: detect_anomalies_def mixed_snapshot_def mixed_result_def scenario_defs)

section \<open>Properties of the forecast post-processing\<close>

lemma py_round_bounds:
  fixes A B :: int
  assumes "of_int A / 10 ^ n \<le> x" and "x \<le> of_int B / 10 ^ n"
  shows "of_int A / 10 ^ n \<le> py_round x n \<and> py_round x n \<le> of_int B / 10 ^ n"
proof -
  define y where "y = x * 10 ^ n"
  define f where "f = \<lfloor>y\<rfloor>"
  have p: "(0::real) < 10 ^ n" by simp
  have Ay: "of_int A \<le> y" using assms(1) p unfolding y_def by (simp add: pos_divide_le_eq)
  have yB: "y \<le> of_int B" using assms(2) p unfolding y_def by (simp add: pos_le_divide_eq)
  have Af: "(of_int A :: real) \<le> of_int f"
    using Ay unfolding f_def by (simp add: le_floor_iff)
  have fy: "of_int f \<le> y" unfolding f_def by simp
  have fB: "(of_int f :: real) \<le> of_int B" using fy yB by linarith
  have up: "(of_int f :: real) + 1 \<le> of_int B" if "0 < y - of_int f"
  proof -
    from that yB have "of_int f < (of_int B :: real)" by linarith
    then have "f < B" by simp
    then have "f + 1 \<le> B" by simp
    then have "(of_int (f + 1) :: real) \<le> of_int B" by (simp only: of_int_le_iff)
    then show ?thesis by simp
  qed
  define num :: real where "num =
      (if y - of_int f < 1/2 then of_int f
          else if 1/2 < y - of_int f then of_int f + 1
          else if even f then of_int f else of_int f + 1)"
  have r: "py_round x n = num / 10 ^ n"
    by (simp add: py_round_def Let_def y_def f_def num_def)
  have lo: "of_int A \<le> num"
    unfolding num_def using Af by simp
  have hi: "num \<le> of_int B"
  proof (cases "y - of_int f < 1/2")
    case True
    then show ?thesis unfolding num_def using fB by simp
  next
    case False
    then have "0 < y - of_int f" by linarith
    from up [OF this] fB show ?thesis unfolding num_def by simp
  qed
  from lo hi p show ?thesis unfolding r by (simp add: divide_right_mono)
qed

lemma confidence_clamped:
  "0.3 \<le> calculate_forecast_confidence fd et sid d \<and>
   calculate_forecast_confidence fd et sid d \<le> 0.95"
proof -
  have "\<exists>c. calculate_forecast_confidence fd et sid d = min 0.95 (max 0.3 c)"
    unfolding calculate_forecast_confidence_def Let_def by (rule exI) (rule refl)
  then obtain c where "calculate_forecast_confidence fd et sid d = min 0.95 (max 0.3 c)" ..
  then show ?thesis by simp
qed

lemma confidence_rounded:
  "0.3 \<le> py_round (calculate_forecast_confidence fd et sid d) 2 \<and>
   py_round (calculate_forecast_confidence fd et sid d) 2 \<le> 0.95"
proof -
  have "of_int 30 / 10 ^ 2 \<le> calculate_forecast_confidence fd et sid d"
    and "calculate_forecast_confidence fd et sid d \<le> of_int 95 / 10 ^ 2"
    using confidence_clamped [of fd et sid d] by simp_all
  from py_round_bounds [OF this] show ?thesis by simp
qed

lemma max_demand_pos: "0 < max_demand fd et sid"
  by (simp add: max_demand_def Let_def min_def)

lemma max_demand_le_20: "max_demand fd et sid \<le> 20"
  by (simp add: max_demand_def Let_def min_def)

lemma max_demand_type:
  assumes "truthy et" and "0 < length (filter (\<lambda>r. Some (Type r) = et) fd)"
  shows "max_demand fd et sid \<le> 1.5 * real (length (filter (\<lambda>r. Some (Type r) = et) fd))"
  using assms by (simp add: max_demand_def Let_def)

lemma max_demand_site:
  assumes "truthy sid" and "sid \<noteq> Some ''UNASSIGNED''"
    and "0 < length (filter (\<lambda>r. User_ID r = sid) fd)"
  shows "max_demand fd et sid \<le> 2 * real (length (filter (\<lambda>r. User_ID r = sid) fd))"
  using assms by (simp add: max_demand_def Let_def min_def)

text \<open>The cap is a whole number of tenths, so rounding to one decimal cannot pass it.\<close>

lemma max_demand_tenths: "\<exists>B::int. max_demand fd et sid = of_int B / 10 ^ 1"
proof -
  have a: "\<exists>B::int. (20::real) = of_int B / 10 ^ 1"
    by (rule exI [of _ 200]) simp
  have b: "\<exists>B::int. real k * 2 = of_int B / 10 ^ 1" for k
    by (rule exI [of _ "int k * 20"]) simp
  have c: "\<exists>B::int. real k * 1.5 = of_int B / 10 ^ 1" for k
    by (rule exI [of _ "int k * 15"]) simp
  show ?thesis
    unfolding max_demand_def Let_def min_def using a b c by (simp split: if_split)
qed

lemma constraints_closed_form:
  "apply_realistic_constraints raw d fd et sid =
     max 0 (min (max_demand fd et sid)
       (raw * (if weekday d \<ge> 5 then 0.6 else 1) *
              (if month_of d \<in> {12, 1, 2} then 0.8 else 1)))"
  by (simp add: apply_realistic_constraints_def Let_def)

lemma constraints_range:
  "0 \<le> apply_realistic_constraints raw d fd et sid \<and>
   apply_realistic_constraints raw d fd et sid \<le> max_demand fd et sid"
  using max_demand_pos [of fd et sid]
  by (simp add: apply_realistic_constraints_def Let_def)

lemma constraints_rounded:
  "0 \<le> py_round (max 0 (apply_realistic_constraints raw d fd et sid)) 1 \<and>
   py_round (max 0 (apply_realistic_constraints raw d fd et sid)) 1 \<le> max_demand fd et sid"
proof -
  obtain B :: int where B: "max_demand fd et sid = of_int B / 10 ^ 1"
    using max_demand_tenths by blast
  have "of_int 0 / 10 ^ 1 \<le> max 0 (apply_realistic_constraints raw d fd et sid)"
    and "max 0 (apply_realistic_constraints raw d fd et sid) \<le> of_int B / 10 ^ 1"
    using constraints_range [of raw d fd et sid] B by simp_all
  from py_round_bounds [OF this] show ?thesis unfolding B by simp
qed

section \<open>Properties of the forecast loop\<close>

lemma forecast_day_fields:
  assumes "forecast_day self et sid fd d = Some f"
  shows "fc_date f = d"
    and "\<exists>raw. predicted_demand f =
           py_round (max 0 (apply_realistic_constraints raw d fd et sid)) 1"
    and "confidence f = py_round (calculate_forecast_confidence fd et sid d) 2"
  using assms
  by (auto simp: forecast_day_def Let_def split: option.splits)

lemma forecast_days_loop_dates:
  "forecast_days_loop self et sid fd ds = Some fs \<Longrightarrow> map fc_date fs = ds"
proof (induction ds arbitrary: fs)
  case Nil
  then show ?case by simp
next
  case (Cons d ds)
  then show ?case
    by (auto split: option.splits simp: forecast_day_fields(1))
qed

lemma forecast_days_loop_elements:
  "forecast_days_loop self et sid fd ds = Some fs \<Longrightarrow> f \<in> set fs \<Longrightarrow>
   \<exists>d. forecast_day self et sid fd d = Some f"
proof (induction ds arbitrary: fs)
  case Nil
  then show ?case by simp
next
  case (Cons d ds)
  then show ?case
    by (auto split: option.splits)
qed

lemma max_check_out_date_is_latest:
  assumes "max_check_out_date rs = Some m"
  shows "(\<exists>r \<in> set rs. Check_Out_Date r = Some m) \<and>
         (\<forall>r \<in> set rs. \<forall>d. Check_Out_Date r = Some d \<longrightarrow> d \<le> m)"
  using assms
proof (induction rs arbitrary: m)
  case Nil
  then show ?case by simp
next
  case (Cons r rs)
  show ?case
  proof (cases "Check_Out_Date r")
    case None
    with Cons show ?thesis by auto
  next
    case (Some d)
    show ?thesis
    proof (cases "max_check_out_date rs")
      case None
      then have "\<forall>x \<in> set rs. Check_Out_Date x = None"
        by (induction rs) (auto split: option.splits)
      with Cons.prems Some None show ?thesis by auto
    next
      case (Some m')
      from Cons.IH [OF Some] Cons.prems \<open>Check_Out_Date r = Some d\<close> Some
      show ?thesis by (auto simp: max_def split: if_splits)
    qed
  qed
qed

text \<open>What a successful call of \<open>forecast_demand\<close> has gone through.\<close>

lemma forecast_demand_Inr:
  assumes "forecast_demand self db et sid n = Inr res"
  shows "\<exists>frame last_date.
           forecast_source self db = Some frame \<and>
           filter_frame et sid frame \<noteq> [] \<and>
           max_check_out_date (filter_frame et sid frame) = Some last_date \<and>
           forecasts res \<noteq> [] \<and>
           forecast_days_loop self et sid (filter_frame et sid frame)
             (map (\<lambda>i. last_date + (int i + 1)) [0..<nat n]) = Some (forecasts res)"
  using assms
  by (auto simp: forecast_demand_def Let_def split: if_splits option.splits list.splits)

lemma filter_frame_scopes:
  assumes "r \<in> set (filter_frame et sid frame)"
  shows "(truthy et \<longrightarrow> Some (Type r) = et) \<and>
         (truthy sid \<and> sid \<noteq> Some ''UNASSIGNED'' \<longrightarrow> User_ID r = sid)"
  using assms by (auto simp: filter_frame_def Let_def split: if_splits)

lemma filter_frame_type_count:
  assumes "truthy et"
  shows "filter (\<lambda>r. Some (Type r) = et) (filter_frame et sid frame) = filter_frame et sid frame"
  using assms filter_frame_scopes [of _ et sid frame] by (simp add: filter_id_conv)

lemma filter_frame_site_count:
  assumes "truthy sid" and "sid \<noteq> Some ''UNASSIGNED''"
  shows "filter (\<lambda>r. User_ID r = sid) (filter_frame et sid frame) = filter_frame et sid frame"
  using assms filter_frame_scopes [of _ et sid frame] by (simp add: filter_id_conv)

text \<open>Every point of a successful forecast is the point computed for some date.\<close>

lemma forecast_demand_point:
  assumes "forecast_demand self db et sid n = Inr res" and "f \<in> set (forecasts res)"
  shows "\<exists>frame d. forecast_source self db = Some frame \<and>
           filter_frame et sid frame \<noteq> [] \<and>
           forecast_day self et sid (filter_frame et sid frame) d = Some f"
proof -
  from forecast_demand_Inr [OF assms(1)] obtain frame last_date where
    src: "forecast_source self db = Some frame" and
    ne: "filter_frame et sid frame \<noteq> []" and
    loop: "forecast_days_loop self et sid (filter_frame et sid frame)
             (map (\<lambda>i. last_date + (int i + 1)) [0..<nat n]) = Some (forecasts res)"
    by blast
  from forecast_days_loop_elements [OF loop assms(2)] src ne show ?thesis by blast
qed

lemmas forecast_scenario_defs =
  forecast_frame_def forecast_row_def live_row_def blank_row_def truthy_def

text \<open>The calendar at the three days after Thursday 2024-01-04 (day 19726).\<close>

lemma calendar_facts:
  "month_of 19727 = 1" "weekday 19727 = 4" "quarter_of 19727 = 1"
  "month_of 19728 = 1" "weekday 19728 = 5" "quarter_of 19728 = 1"
  "month_of 19729 = 1" "weekday 19729 = 6" "quarter_of 19729 = 1"
  by code_simp+

lemma day_name_facts:
  "day_name 19727 = ''Friday''" "day_name 19728 = ''Saturday''" "day_name 19729 = ''Sunday''"
  by (simp_all add: day_name_def calendar_facts)

lemma upt_facts: "[0..<3] = [0, 1, 2]" "[0..<2] = [0, 1]"
  by (simp_all add: upt_rec numeral_nat)

lemmas forecast_defs =
  forecast_demand_def forecast_source_def filter_frame_def forecast_day_def
  prepare_forecast_features_def predict_demand_def uses_site_model_def site_features_def
  apply_realistic_constraints_def max_demand_def calculate_forecast_confidence_def
  py_round_def series_mean_def calendar_facts day_name_facts upt_facts trained_system_def
  forecast_scenario_defs Let_def

lemma forecast_expected_evaluated:
  "forecast_demand trained_system (Some forecast_frame) None None 3 = Inr forecast_expected"
  by (simp add: forecast_defs forecast_expected_def)

lemma forecast_expected_site_evaluated:
  "forecast_demand trained_system (Some forecast_frame) (Some ''Excavator'') (Some ''S1'') 2
   = Inr forecast_expected_site"
  by (simp add: forecast_defs forecast_expected_site_def)

section \<open>Which model predicts, and on what\<close>

lemma prepare_forecast_features_length:
  assumes "prepare_forecast_features self et sid d fd = Some features"
  shows "length features = 14"
proof (cases "if truthy et then (case et of Some t \<Rightarrow> equipment_encoder self t | None \<Rightarrow> None)
              else Some 0")
  case None
  with assms show ?thesis by (simp add: prepare_forecast_features_def)
next
  case e: (Some equipment_encoded)
  show ?thesis
  proof (cases "if truthy sid then (case sid of Some s \<Rightarrow> site_encoder self s | None \<Rightarrow> None)
                else Some 0")
    case None
    with assms e show ?thesis by (simp add: prepare_forecast_features_def)
  next
    case (Some site_enc)
    with assms e have "\<exists>a b c d e f g h i j k l m n.
        features = [a, b, c, d, e, f, g, h, i, j, k, l, m, n]"
      unfolding prepare_forecast_features_def Let_def by (simp only: option.case) blast
    then show ?thesis by auto
  qed
qed

lemma uses_site_model_iff:
  "uses_site_model self et sid \<longleftrightarrow>
     (\<exists>s. sid = Some s \<and> s \<noteq> [] \<and> s \<in> dom (site_specific_models self)) \<and>
     (\<exists>t. et = Some t \<and> t \<noteq> [])"
  by (auto simp: uses_site_model_def truthy_def split: option.splits)

lemma predict_demand_site_model:
  assumes "uses_site_model self et sid"
  shows "\<exists>s site_model. sid = Some s \<and> site_specific_models self s = Some site_model \<and>
           predict_demand self et sid features = site_model (take 8 features)"
  using assms
  by (auto simp: predict_demand_def uses_site_model_def site_features_def split: option.splits)

lemma predict_demand_global_model:
  assumes "\<not> uses_site_model self et sid"
  shows "predict_demand self et sid features =
           (case scaler self features of
              Some features_scaled \<Rightarrow> demand_forecaster self features_scaled
            | None \<Rightarrow> None)"
  using assms by (simp add: predict_demand_def)

section \<open>Properties of the utilization and efficiency formulas\<close>

lemma utilization_ratio_unit_interval:
  assumes "0 \<le> e" and "0 \<le> i"
  shows "in_unit_interval (preprocess_utilization_ratio (Fin e) (Fin i))"
    and "in_unit_interval (anomaly_utilization_ratio (Fin e) (Fin i))"
    and "in_unit_interval (db_utilization_ratio (Fin e) (Fin i))"
  using assms
  by (auto simp: in_unit_interval_def preprocess_utilization_ratio_def
      anomaly_utilization_ratio_def db_utilization_ratio_def fillna_def fgt_def
      signed_inf_def Let_def divide_le_eq_1)

lemma utilization_ratio_positive_total:
  assumes "0 < e + i"
  shows "preprocess_utilization_ratio (Fin e) (Fin i) = Fin (e / (e + i))"
    and "anomaly_utilization_ratio (Fin e) (Fin i) = Fin (e / (e + i))"
    and "db_utilization_ratio (Fin e) (Fin i) = Fin (e / (e + i))"
  using assms
  by (auto simp: preprocess_utilization_ratio_def anomaly_utilization_ratio_def
      db_utilization_ratio_def fillna_def fgt_def Let_def)

lemma efficiency_score_formulas:
  "preprocess_efficiency_score (Fin e) (Fin i) = Fin ((e * 0.6 + (24 - i) * 0.4) / 24)"
  "0 < e + i \<Longrightarrow> anomaly_efficiency_score (Fin e) (Fin i) = Fin (e / (e + i) * (e / 8))"
  "0 < e + i \<Longrightarrow> db_efficiency_score (Fin e) (Fin i) = Fin (e / (e + i) * (e / 8))"
  by (auto simp: preprocess_efficiency_score_def anomaly_efficiency_score_def
      db_efficiency_score_def db_utilization_ratio_def fillna_def fsub_def)

section \<open>Properties of training, construction and reload\<close>

lemma train_models_early_return:
  assumes "data self = Some frame"
    and "length frame < 50 \<or> length (dropna feature_columns frame) < 30"
  shows "train_models L self = self"
  using assms by (auto simp: train_models_def Let_def)

lemma train_models_no_data: "data self = None \<Longrightarrow> train_models L self = self"
  by (simp add: train_models_def)

lemma untrained_calls:
  assumes "\<not> models_trained self"
  shows "forecast_demand self db et sid n = Inl Models_not_trained"
    and "detect_anomalies self cnt db eid = Inl Models_not_trained"
  using assms by (simp_all add: forecast_demand_def detect_anomalies_def)

lemma try_load_models_failed:
  assumes "try_load_models dir self = (s, False)"
  shows "models_trained s = models_trained self" and "data s = data self"
  using assms
  by (auto simp: try_load_models_def Let_def split: if_splits option.splits)

text \<open>
  A construction that finds fewer than 50 rows, or fewer than 30 clean ones, and loads no
  saved models, returns an untrained system.
\<close>

lemma SmartMLSystem_insufficient_data:
  assumes "read_csv env = Some raw" and "preprocess_data env raw = Some (frame, ee, se)"
    and "saved_models env = None \<or>
         (\<exists>dir. saved_models env = Some dir \<and> \<not> snd (try_load_models dir
            (unfitted\<lparr>data := Some frame, equipment_encoder := ee, site_encoder := se\<rparr>)))"
    and "length frame < 50 \<or> length (dropna feature_columns frame) < 30"
  shows "\<exists>s. SmartMLSystem env = Some s \<and> \<not> models_trained s"
proof -
  let ?s1 = "unfitted\<lparr>data := Some frame, equipment_encoder := ee, site_encoder := se\<rparr>"
  have s1: "data ?s1 = Some frame" "\<not> models_trained ?s1" by (simp_all add: unfitted_def)
  from assms(3) show ?thesis
  proof
    assume "saved_models env = None"
    with assms(1,2) have "SmartMLSystem env = Some (train_models (sklearn env) ?s1)"
      by (simp add: SmartMLSystem_def Let_def)
    with train_models_early_return [OF s1(1) assms(4)] s1(2) show ?thesis by simp
  next
    assume "\<exists>dir. saved_models env = Some dir \<and> \<not> snd (try_load_models dir ?s1)"
    then obtain dir s2 where dir: "saved_models env = Some dir"
      and l: "try_load_models dir ?s1 = (s2, False)"
      by (metis prod.collapse)
    from try_load_models_failed [OF l] s1
    have s2: "data s2 = Some frame" "\<not> models_trained s2" by simp_all
    from assms(1,2) dir l have "SmartMLSystem env = Some (train_models (sklearn env) s2)"
      by (simp add: SmartMLSystem_def Let_def)
    with train_models_early_return [OF s2(1) assms(4)] s2(2) show ?thesis by simp
  qed
qed

text \<open>
  A reload keeps the serving system exactly when the constructor raises; whatever the
  constructor returns replaces it.
\<close>

lemma on_database_change_constructor_raises:
  assumes "\<not> is_reloading svc" and "SmartMLSystem env = None"
  shows "ml_system (on_database_change env svc) = ml_system svc"
  using assms by (simp add: on_database_change_def Let_def)

lemma on_database_change_constructor_returns:
  assumes "\<not> is_reloading svc" and "SmartMLSystem env = Some new_system"
  shows "ml_system (on_database_change env svc) = Some new_system"
  using assms by (simp add: on_database_change_def Let_def)

lemma on_database_change_while_reloading:
  "is_reloading svc \<Longrightarrow> on_database_change env svc = svc"
  by (simp add: on_database_change_def)

text \<open>
  An exception inside \<open>_train_models\<close> never leaves it: past the two early returns the
  result is flagged trained exactly when the last step succeeded.
\<close>

lemma train_models_total_data:
  "data (train_models L self) = data self"
  by (auto simp: train_models_def train_site_specific_models_def Let_def
      split: option.splits prod.splits)

lemma train_site_specific_models_flag:
  "models_trained (train_site_specific_models L self) = models_trained self"
  by (simp add: train_site_specific_models_def split: option.splits)

lemma train_models_anomaly_fit_raises:
  assumes "data self = Some frame" and "50 \<le> length frame"
    and "30 \<le> length (dropna feature_columns frame)"
    and "dropna anomaly_features (dropna feature_columns frame) \<noteq> []"
    and "\<And>X. \<not> fit_anomaly_detector L X"
  shows "\<not> models_trained (train_models L self)"
  using assms
  by (auto simp: train_models_def Let_def train_site_specific_models_flag
      split: option.splits prod.splits)

lemma full_frame_clean:
  "dropna feature_columns full_frame = full_frame"
  "dropna anomaly_features full_frame = full_frame"
  by (simp_all add: dropna_def full_frame_def filter_replicate cell_def numeric_columns_def
      feature_columns_def anomaly_features_def forecast_row_def live_row_def blank_row_def)

lemma reload_constructs_untrained:
  "\<exists>s. SmartMLSystem reload_environment = Some s \<and> \<not> models_trained s"
proof -
  let ?s1 = "unfitted\<lparr>data := Some full_frame,
               equipment_encoder := equipment_encoder trained_system,
               site_encoder := site_encoder trained_system\<rparr>"
  have c: "SmartMLSystem reload_environment = Some (train_models raising_learner ?s1)"
    by (simp add: SmartMLSystem_def reload_environment_def Let_def)
  have "\<not> models_trained (train_models raising_learner ?s1)"
  proof (rule train_models_anomaly_fit_raises)
    show "data ?s1 = Some full_frame" by simp
    show "50 \<le> length full_frame" by (simp add: full_frame_def)
    show "30 \<le> length (dropna feature_columns full_frame)"
      by (simp add: full_frame_clean) (simp add: full_frame_def)
    show "dropna anomaly_features (dropna feature_columns full_frame) \<noteq> []"
      by (simp add: full_frame_clean) (simp add: full_frame_def)
    show "\<not> fit_anomaly_detector raising_learner X" for X
      by (simp add: raising_learner_def)
  qed
  with c show ?thesis by simp
qed

lemma unreadable_constructs_untrained:
  "\<exists>s. SmartMLSystem unreadable_environment = Some s \<and> \<not> models_trained s"
  by (simp add: SmartMLSystem_def unreadable_environment_def unfitted_def)

lemma mostly_null_frame_counts:
  "length mostly_null_frame = 50"
  "length (dropna feature_columns mostly_null_frame) = 25"
  by (simp_all add: dropna_def mostly_null_frame_def filter_replicate cell_def
      numeric_columns_def feature_columns_def forecast_row_def live_row_def blank_row_def)

text \<open>
  The early returns of \<open>_train_models\<close> do not look at \<open>models_trained\<close>: a system
  that is already flagged trained stays so whatever the size of its frame.
\<close>

lemma train_models_keeps_trained_flag:
  assumes "models_trained self" and "data self = Some frame"
    and "length frame < 50 \<or> length (dropna feature_columns frame) < 30"
  shows "models_trained (train_models L self)"
  using assms train_models_early_return [of self frame L] by simp

text \<open>A construction that finds every saved file never trains and is flagged trained.\<close>

lemma try_load_models_complete:
  assumes "anomaly_detector_pkl dir" and "demand_forecaster_pkl dir = Some m"
    and "scaler_pkl dir = Some sc" and "equipment_encoder_pkl dir = Some ee"
    and "site_encoder_pkl dir = Some se"
  shows "try_load_models dir self =
           (self\<lparr>demand_forecaster := m, scaler := sc, equipment_encoder := ee,
                  site_encoder := se, models_trained := True\<rparr>, True)"
  using assms by (simp add: try_load_models_def Let_def)

lemma small_saved_construction:
  "SmartMLSystem small_saved_environment =
     Some \<lparr>data = Some small_frame, scaler = (\<lambda>v. Some v),
            demand_forecaster = (\<lambda>v. Some 3), site_specific_models = Map.empty,
            equipment_encoder = equipment_encoder trained_system,
            site_encoder = site_encoder trained_system, models_trained = True\<rparr>"
  by (simp add: SmartMLSystem_def small_saved_environment_def saved_directory_def
      try_load_models_def unfitted_def Let_def)

section \<open>Claims about the anomaly scorer\<close>

text \<open>
  C1, as amended. \<open>detect_anomalies\<close> scans every live record it selected (the whole
  frame, or the rows of the requested equipment), in order, on the metrics it computed
  for the record. A record that matches a rule is reported once, and its
  \<open>alert_type\<close> is the first rule that matches in the fixed order
  (1) utilization below 0.35: \<open>low_utilization\<close>, (2) idle hours above 6:
  \<open>high_idle_time\<close>, (3) engine hours equal to 0 and idle hours above 0: \<open>no_usage\<close>;
  a record that matches no rule is not reported. Read on the returned anomalies: each
  carries the first rule that matches the metrics it reports, and one does match. On the
  snapshot of three machines the call returns exactly three anomalies: the machine with
  no engine hours and five idle hours as \<open>low_utilization\<close> with severity \<open>high\<close>
  (its utilization is 0, so rule 1 comes first), the machine with eight idle hours as
  \<open>high_idle_time\<close>/\<open>high\<close>, and the machine with utilization 0.2 as
  \<open>low_utilization\<close>/\<open>medium\<close>.
\<close>

theorem detect_anomalies_alert_type_first_match:
  "(\<forall>self n frame eid res.
      detect_anomalies self n (Some frame) eid = Inr res \<longrightarrow>
        map (\<lambda>a. (equipment_id a, alert_type a)) (anomalies res) =
          concat (map (\<lambda>r.
              if flt (utilization_ratio r) (Fin 0.35)
              then [(Equipment_ID r, ''low_utilization'')]
              else if fgt (Idle_Hours_Day r) (Fin 6)
              then [(Equipment_ID r, ''high_idle_time'')]
              else if feq (Engine_Hours_Day r) (Fin 0) \<and> fgt (Idle_Hours_Day r) (Fin 0)
              then [(Equipment_ID r, ''no_usage'')]
              else [])
            (map calculate_metrics
              (if truthy eid then filter (\<lambda>r. Some (Equipment_ID r) = eid) frame
               else frame)))) \<and>
   (\<forall>self n db eid res a.
      detect_anomalies self n db eid = Inr res \<longrightarrow> a \<in> set (anomalies res) \<longrightarrow>
        alert_type a =
          (if flt (utilization a) (Fin 0.35) then ''low_utilization''
           else if fgt (idle_hours a) (Fin 6) then ''high_idle_time''
           else ''no_usage'') \<and>
        (flt (utilization a) (Fin 0.35) \<or> fgt (idle_hours a) (Fin 6) \<or>
         (feq (engine_hours a) (Fin 0) \<and> fgt (idle_hours a) (Fin 0)))) \<and>
   detect_anomalies trained_system 151 (Some scenario_snapshot) None = Inr scenario_result"
proof (intro conjI allI impI)
  fix self n frame eid res
  assume ok: "detect_anomalies self n (Some frame) eid = Inr res"
  show "map (\<lambda>a. (equipment_id a, alert_type a)) (anomalies res) =
          concat (map (\<lambda>r.
              if flt (utilization_ratio r) (Fin 0.35)
              then [(Equipment_ID r, ''low_utilization'')]
              else if fgt (Idle_Hours_Day r) (Fin 6)
              then [(Equipment_ID r, ''high_idle_time'')]
              else if feq (Engine_Hours_Day r) (Fin 0) \<and> fgt (Idle_Hours_Day r) (Fin 0)
              then [(Equipment_ID r, ''no_usage'')]
              else [])
            (map calculate_metrics
              (if truthy eid then filter (\<lambda>r. Some (Equipment_ID r) = eid) frame
               else frame)))"
    unfolding detect_anomalies_scans_every_row [OF ok] by (rule scan_rows_first_rule)
next
  fix self n db eid res a
  assume ok: "detect_anomalies self n db eid = Inr res" and a: "a \<in> set (anomalies res)"
  from detect_anomalies_scans [OF ok] a obtain r where "scan_row r = Some a"
    by (auto simp: scan_rows_set)
  then show "alert_type a =
          (if flt (utilization a) (Fin 0.35) then ''low_utilization''
           else if fgt (idle_hours a) (Fin 6) then ''high_idle_time''
           else ''no_usage'')"
    and "flt (utilization a) (Fin 0.35) \<or> fgt (idle_hours a) (Fin 6) \<or>
         (feq (engine_hours a) (Fin 0) \<and> fgt (idle_hours a) (Fin 0))"
    by (rule scan_row_alert_type)+
next
  show "detect_anomalies trained_system 151 (Some scenario_snapshot) None = Inr scenario_result"
    by (rule scenario_detect)
qed

text \<open>
  The amended claim at work: on the snapshot whose first machine is healthy, the healthy
  machine is passed over and the second one is reported; on the snapshot of three, the
  first anomaly is \<open>low_utilization\<close>.
\<close>

theorem detect_anomalies_alert_type_first_match_witness:
  "detect_anomalies trained_system 151 (Some mixed_snapshot) None = Inr mixed_result \<and>
   map (\<lambda>a. (equipment_id a, alert_type a)) (anomalies mixed_result) =
     [(''EQ8'', ''low_utilization'')] \<and>
   detect_anomalies trained_system 151 (Some scenario_snapshot) None = Inr scenario_result \<and>
   anomalies scenario_result ! 0 \<in> set (anomalies scenario_result) \<and>
   alert_type (anomalies scenario_result ! 0) = ''low_utilization'' \<and>
   flt (utilization (anomalies scenario_result ! 0)) (Fin 0.35)"
proof -
  note T = detect_anomalies_alert_type_first_match
  have mixed: "detect_anomalies trained_system 151 (Some mixed_snapshot) None = Inr mixed_result"
    by (rule mixed_snapshot_detect)
  from T mixed
  have "map (\<lambda>a. (equipment_id a, alert_type a)) (anomalies mixed_result) =
          concat (map (\<lambda>r.
              if flt (utilization_ratio r) (Fin 0.35)
              then [(Equipment_ID r, ''low_utilization'')]
              else if fgt (Idle_Hours_Day r) (Fin 6)
              then [(Equipment_ID r, ''high_idle_time'')]
              else if feq (Engine_Hours_Day r) (Fin 0) \<and> fgt (Idle_Hours_Day r) (Fin 0)
              then [(Equipment_ID r, ''no_usage'')]
              else [])
            (map calculate_metrics
              (if truthy None then filter (\<lambda>r. Some (Equipment_ID r) = None) mixed_snapshot
               else mixed_snapshot)))"
    by blast
  also have "\<dots> = [(''EQ8'', ''low_utilization'')]"
    by (simp add: mixed_snapshot_def scenario_defs)
  finally have rows: "map (\<lambda>a. (equipment_id a, alert_type a)) (anomalies mixed_result) =
     [(''EQ8'', ''low_utilization'')]" .
  have ok: "detect_anomalies trained_system 151 (Some scenario_snapshot) None = Inr scenario_result"
    by (rule scenario_detect)
  have a: "anomalies scenario_result ! 0 \<in> set (anomalies scenario_result)"
    by (simp add: scenario_result_def)
  from T ok a
  have "alert_type (anomalies scenario_result ! 0) =
          (if flt (utilization (anomalies scenario_result ! 0)) (Fin 0.35)
           then ''low_utilization''
           else if fgt (idle_hours (anomalies scenario_result ! 0)) (Fin 6)
           then ''high_idle_time'' else ''no_usage'')"
    by blast
  moreover have u: "flt (utilization (anomalies scenario_result ! 0)) (Fin 0.35)"
    by (simp add: scenario_result_def)
  ultimately show ?thesis using mixed rows ok a by simp
qed

text \<open>
  C1 as stated fails on the snapshot: the machine with no engine hours and five idle hours
  is not reported as \<open>no_usage\<close>.
\<close>

theorem detect_anomalies_scenario_counterexample:
  "detect_anomalies trained_system 151 (Some scenario_snapshot) None = Inr scenario_result \<and>
   map (\<lambda>a. (alert_type a, severity a)) (anomalies scenario_result) =
     [(''low_utilization'', ''high''), (''high_idle_time'', ''high''),
      (''low_utilization'', ''medium'')] \<and>
   map (\<lambda>a. (alert_type a, severity a)) (anomalies scenario_result) \<noteq>
     [(''no_usage'', ''high''), (''high_idle_time'', ''high''),
      (''low_utilization'', ''medium'')]"
  by (simp add: scenario_detect) (simp add: scenario_result_def)

text \<open>
  C10. Every anomaly that \<open>detect_anomalies\<close> returns has severity \<open>high\<close> exactly
  when its idle hours exceed 6 or its engine hours are 0 with idle hours above 0, and
  severity \<open>medium\<close> otherwise, whichever alert type it reports.
\<close>

theorem detect_anomalies_severity:
  assumes "detect_anomalies self n db eid = Inr res" and "a \<in> set (anomalies res)"
  shows "severity a =
           (if fgt (idle_hours a) (Fin 6) \<or>
               (feq (engine_hours a) (Fin 0) \<and> fgt (idle_hours a) (Fin 0))
            then ''high'' else ''medium'')"
proof -
  from detect_anomalies_scans [OF assms(1)] assms(2) obtain r where "scan_row r = Some a"
    by (auto simp: scan_rows_set)
  then show ?thesis by (rule scan_row_severity)
qed

theorem detect_anomalies_severity_witness:
  "detect_anomalies trained_system 151 (Some scenario_snapshot) None = Inr scenario_result \<and>
   anomalies scenario_result ! 0 \<in> set (anomalies scenario_result) \<and>
   anomalies scenario_result ! 2 \<in> set (anomalies scenario_result) \<and>
   alert_type (anomalies scenario_result ! 0) = ''low_utilization'' \<and>
   severity (anomalies scenario_result ! 0) = ''high'' \<and>
   severity (anomalies scenario_result ! 2) = ''medium''"
proof -
  have ok: "detect_anomalies trained_system 151 (Some scenario_snapshot) None = Inr scenario_result"
    by (rule scenario_detect)
  have a0: "anomalies scenario_result ! 0 \<in> set (anomalies scenario_result)"
    and a2: "anomalies scenario_result ! 2 \<in> set (anomalies scenario_result)"
    by (simp_all add: scenario_result_def)
  have m0: "feq (engine_hours (anomalies scenario_result ! 0)) (Fin 0) \<and>
            fgt (idle_hours (anomalies scenario_result ! 0)) (Fin 0)"
    and m2: "\<not> fgt (idle_hours (anomalies scenario_result ! 2)) (Fin 6) \<and>
             \<not> feq (engine_hours (anomalies scenario_result ! 2)) (Fin 0)"
    and t0: "alert_type (anomalies scenario_result ! 0) = ''low_utilization''"
    by (simp_all add: scenario_result_def fgt_def)
  from detect_anomalies_severity [OF ok a0] m0
  have "severity (anomalies scenario_result ! 0) = ''high''" by simp
  moreover from detect_anomalies_severity [OF ok a2] m2
  have "severity (anomalies scenario_result ! 2) = ''medium''" by simp
  ultimately show ?thesis using ok a0 a2 t0 by simp
qed

section \<open>Claims about forecasting\<close>

text \<open>
  C7. For every raw prediction, date and context, the constrained prediction is at least
  0 and at most 20, at most 1.5 times the number of the context's records of the
  requested equipment type when a type is given and the context has such records, and at
  most 2 times the number of the context's records at the requested site when a site
  other than UNASSIGNED is given and the context has such records. It is the raw
  prediction scaled by 0.6 on a weekend and by 0.8 in December, January and February, and
  only then clamped between 0 and the cap, which does not depend on the scaling. Every
  point of a successful forecast keeps these bounds after rounding, with the counts taken
  on the frame filtered to the request, where they are never zero.
\<close>

theorem apply_realistic_constraints_bounds:
  "(let r = apply_realistic_constraints raw d fd et sid;
        n_type = length (filter (\<lambda>x. Some (Type x) = et) fd);
        n_site = length (filter (\<lambda>x. User_ID x = sid) fd)
    in 0 \<le> r \<and> r \<le> 20 \<and>
       (truthy et \<and> 0 < n_type \<longrightarrow> r \<le> 1.5 * real n_type) \<and>
       (truthy sid \<and> sid \<noteq> Some ''UNASSIGNED'' \<and> 0 < n_site \<longrightarrow> r \<le> 2 * real n_site) \<and>
       r = max 0 (min (max_demand fd et sid)
             (raw * (if 5 \<le> weekday d then 0.6 else 1) *
                    (if month_of d \<in> {12, 1, 2} then 0.8 else 1)))) \<and>
   (\<forall>self db n res f.
      forecast_demand self db et sid n = Inr res \<longrightarrow> f \<in> set (forecasts res) \<longrightarrow>
        (\<exists>frame. forecast_source self db = Some frame \<and>
           0 < length (filter_frame et sid frame) \<and>
           0 \<le> predicted_demand f \<and> predicted_demand f \<le> 20 \<and>
           (truthy et \<longrightarrow>
              predicted_demand f \<le> 1.5 * real (length (filter_frame et sid frame))) \<and>
           (truthy sid \<and> sid \<noteq> Some ''UNASSIGNED'' \<longrightarrow>
              predicted_demand f \<le> 2 * real (length (filter_frame et sid frame)))))"
proof (intro conjI allI impI)
  show "let r = apply_realistic_constraints raw d fd et sid;
        n_type = length (filter (\<lambda>x. Some (Type x) = et) fd);
        n_site = length (filter (\<lambda>x. User_ID x = sid) fd)
    in 0 \<le> r \<and> r \<le> 20 \<and>
       (truthy et \<and> 0 < n_type \<longrightarrow> r \<le> 1.5 * real n_type) \<and>
       (truthy sid \<and> sid \<noteq> Some ''UNASSIGNED'' \<and> 0 < n_site \<longrightarrow> r \<le> 2 * real n_site) \<and>
       r = max 0 (min (max_demand fd et sid)
             (raw * (if 5 \<le> weekday d then 0.6 else 1) *
                    (if month_of d \<in> {12, 1, 2} then 0.8 else 1)))"
    unfolding Let_def
  proof (intro conjI impI)
    show "0 \<le> apply_realistic_constraints raw d fd et sid"
      using constraints_range by blast
    show "apply_realistic_constraints raw d fd et sid \<le> 20"
      using constraints_range [of raw d fd et sid] max_demand_le_20 [of fd et sid] by linarith
    show "apply_realistic_constraints raw d fd et sid
            \<le> 1.5 * real (length (filter (\<lambda>x. Some (Type x) = et) fd))"
      if "truthy et \<and> 0 < length (filter (\<lambda>x. Some (Type x) = et) fd)"
      using constraints_range [of raw d fd et sid] max_demand_type [of et fd sid] that
      by linarith
    show "apply_realistic_constraints raw d fd et sid
            \<le> 2 * real (length (filter (\<lambda>x. User_ID x = sid) fd))"
      if "truthy sid \<and> sid \<noteq> Some ''UNASSIGNED'' \<and> 0 < length (filter (\<lambda>x. User_ID x = sid) fd)"
      using constraints_range [of raw d fd et sid] max_demand_site [of sid fd et] that
      by linarith
    show "apply_realistic_constraints raw d fd et sid =
            max 0 (min (max_demand fd et sid)
              (raw * (if 5 \<le> weekday d then 0.6 else 1) *
                     (if month_of d \<in> {12, 1, 2} then 0.8 else 1)))"
      by (rule constraints_closed_form)
  qed
next
  fix self db n res f
  assume ok: "forecast_demand self db et sid n = Inr res" and f: "f \<in> set (forecasts res)"
  from forecast_demand_point [OF ok f] obtain frame day where
    src: "forecast_source self db = Some frame" and
    ne: "filter_frame et sid frame \<noteq> []" and
    day: "forecast_day self et sid (filter_frame et sid frame) day = Some f"
    by blast
  let ?fd = "filter_frame et sid frame"
  from forecast_day_fields(2) [OF day] obtain raw' where
    p: "predicted_demand f = py_round (max 0 (apply_realistic_constraints raw' day ?fd et sid)) 1"
    by blast
  have lo: "0 \<le> predicted_demand f" and hi: "predicted_demand f \<le> max_demand ?fd et sid"
    using constraints_rounded [of raw' day ?fd et sid] unfolding p by simp_all
  have len: "0 < length ?fd" using ne by simp
  have t: "predicted_demand f \<le> 1.5 * real (length ?fd)" if "truthy et"
    using max_demand_type [of et ?fd sid] filter_frame_type_count [OF that, of sid frame]
      that len hi by simp
  have s: "predicted_demand f \<le> 2 * real (length ?fd)"
    if "truthy sid \<and> sid \<noteq> Some ''UNASSIGNED''"
    using max_demand_site [of sid ?fd et] that len hi
      filter_frame_site_count [of sid et frame] by simp
  have "predicted_demand f \<le> 20"
    using hi max_demand_le_20 [of ?fd et sid] by linarith
  with src len lo t s
  show "\<exists>frame. forecast_source self db = Some frame \<and>
           0 < length (filter_frame et sid frame) \<and>
           0 \<le> predicted_demand f \<and> predicted_demand f \<le> 20 \<and>
           (truthy et \<longrightarrow>
              predicted_demand f \<le> 1.5 * real (length (filter_frame et sid frame))) \<and>
           (truthy sid \<and> sid \<noteq> Some ''UNASSIGNED'' \<longrightarrow>
              predicted_demand f \<le> 2 * real (length (filter_frame et sid frame)))"
    by blast
qed

theorem apply_realistic_constraints_bounds_witness:
  "truthy (Some ''Excavator'') \<and>
   0 < length (filter (\<lambda>x. Some (Type x) = Some ''Excavator'') forecast_frame) \<and>
   truthy (Some ''S1'') \<and> Some ''S1'' \<noteq> Some ''UNASSIGNED'' \<and>
   0 < length (filter (\<lambda>x. User_ID x = Some ''S1'') forecast_frame) \<and>
   apply_realistic_constraints 30 19728 forecast_frame (Some ''Excavator'') (Some ''S1'')
     \<le> 1.5 * real (length (filter (\<lambda>x. Some (Type x) = Some ''Excavator'') forecast_frame)) \<and>
   apply_realistic_constraints 30 19728 forecast_frame (Some ''Excavator'') (Some ''S1'')
     \<le> 2 * real (length (filter (\<lambda>x. User_ID x = Some ''S1'') forecast_frame)) \<and>
   forecast_demand trained_system (Some forecast_frame) (Some ''Excavator'') (Some ''S1'') 2
     = Inr forecast_expected_site \<and>
   forecasts forecast_expected_site ! 0 \<in> set (forecasts forecast_expected_site) \<and>
   predicted_demand (forecasts forecast_expected_site ! 0) \<le> 20"
proof -
  note T = apply_realistic_constraints_bounds
    [of 30 19728 forecast_frame "Some ''Excavator''" "Some ''S1''"]
  have t: "truthy (Some ''Excavator'')" and s: "truthy (Some ''S1'')"
    and u: "Some ''S1'' \<noteq> Some ''UNASSIGNED''"
    by (simp_all add: truthy_def)
  have nt: "0 < length (filter (\<lambda>x. Some (Type x) = Some ''Excavator'') forecast_frame)"
    and ns: "0 < length (filter (\<lambda>x. User_ID x = Some ''S1'') forecast_frame)"
    by (simp_all add: forecast_scenario_defs)
  from T t nt have b1:
    "apply_realistic_constraints 30 19728 forecast_frame (Some ''Excavator'') (Some ''S1'')
     \<le> 1.5 * real (length (filter (\<lambda>x. Some (Type x) = Some ''Excavator'') forecast_frame))"
    unfolding Let_def by blast
  from T s u ns have b2:
    "apply_realistic_constraints 30 19728 forecast_frame (Some ''Excavator'') (Some ''S1'')
     \<le> 2 * real (length (filter (\<lambda>x. User_ID x = Some ''S1'') forecast_frame))"
    unfolding Let_def by blast
  have ok: "forecast_demand trained_system (Some forecast_frame) (Some ''Excavator'')
              (Some ''S1'') 2 = Inr forecast_expected_site"
    by (rule forecast_expected_site_evaluated)
  have f: "forecasts forecast_expected_site ! 0 \<in> set (forecasts forecast_expected_site)"
    by (simp add: forecast_expected_site_def)
  from T ok f have b3: "predicted_demand (forecasts forecast_expected_site ! 0) \<le> 20"
    by blast
  from t s u nt ns b1 b2 ok f b3 show ?thesis by blast
qed

text \<open>
  C8. A call of \<open>forecast_demand\<close> that succeeds was asked for \<open>days_ahead = N \<ge> 1\<close> and
  returns exactly N points; their dates are the N consecutive days that start the day
  after the latest check-out date of the frame the forecast is computed from (the live or
  training frame, filtered to the requested type and site), so they strictly increase.
\<close>

theorem forecast_demand_dates:
  assumes "forecast_demand self db et sid n = Inr res"
  shows "\<exists>frame last_date.
           forecast_source self db = Some frame \<and>
           max_check_out_date (filter_frame et sid frame) = Some last_date \<and>
           (\<exists>r \<in> set (filter_frame et sid frame). Check_Out_Date r = Some last_date) \<and>
           (\<forall>r \<in> set (filter_frame et sid frame). \<forall>d.
              Check_Out_Date r = Some d \<longrightarrow> d \<le> last_date) \<and>
           1 \<le> n \<and> int (length (forecasts res)) = n \<and>
           map fc_date (forecasts res) = map (\<lambda>k. last_date + 1 + int k) [0..<nat n] \<and>
           (\<forall>k. Suc k < length (forecasts res) \<longrightarrow>
              fc_date (forecasts res ! Suc k) = fc_date (forecasts res ! k) + 1)"
proof -
  from forecast_demand_Inr [OF assms] obtain frame last_date where
    src: "forecast_source self db = Some frame" and
    last: "max_check_out_date (filter_frame et sid frame) = Some last_date" and
    ne: "forecasts res \<noteq> []" and
    loop: "forecast_days_loop self et sid (filter_frame et sid frame)
             (map (\<lambda>i. last_date + (int i + 1)) [0..<nat n]) = Some (forecasts res)"
    by blast
  from forecast_days_loop_dates [OF loop]
  have dates: "map fc_date (forecasts res) = map (\<lambda>i. last_date + (int i + 1)) [0..<nat n]" .
  then have "length (map fc_date (forecasts res)) = length (map (\<lambda>i. last_date + (int i + 1)) [0..<nat n])"
    by (rule arg_cong)
  then have len: "length (forecasts res) = nat n" by simp
  with ne have pos: "1 \<le> n" by (cases "forecasts res") auto
  with len have len': "int (length (forecasts res)) = n" by simp
  have dates': "map fc_date (forecasts res) = map (\<lambda>k. last_date + 1 + int k) [0..<nat n]"
    unfolding dates by (simp add: add.commute add.left_commute)
  have step: "fc_date (forecasts res ! Suc k) = fc_date (forecasts res ! k) + 1"
    if "Suc k < length (forecasts res)" for k
  proof -
    from that len have k: "Suc k < nat n" "k < nat n" by simp_all
    have "fc_date (forecasts res ! Suc k) = map fc_date (forecasts res) ! Suc k"
      using that by simp
    also have "\<dots> = last_date + 1 + int (Suc k)" unfolding dates' using k by simp
    finally have a: "fc_date (forecasts res ! Suc k) = last_date + 1 + int (Suc k)" .
    have "fc_date (forecasts res ! k) = map fc_date (forecasts res) ! k"
      using that by simp
    also have "\<dots> = last_date + 1 + int k" unfolding dates' using k by simp
    finally show ?thesis using a by simp
  qed
  from max_check_out_date_is_latest [OF last] src last pos len' dates' step
  show ?thesis by blast
qed

theorem forecast_demand_dates_witness:
  "forecast_demand trained_system (Some forecast_frame) None None 3 = Inr forecast_expected \<and>
   max_check_out_date (filter_frame None None forecast_frame) = Some 19726 \<and>
   length (forecasts forecast_expected) = 3 \<and>
   map fc_date (forecasts forecast_expected) = [19727, 19728, 19729]"
proof -
  have ok: "forecast_demand trained_system (Some forecast_frame) None None 3
              = Inr forecast_expected"
    by (rule forecast_expected_evaluated)
  have last: "max_check_out_date (filter_frame None None forecast_frame) = Some 19726"
    by (simp add: filter_frame_def forecast_scenario_defs)
  have src: "forecast_source trained_system (Some forecast_frame) = Some forecast_frame"
    by (simp add: forecast_source_def forecast_frame_def)
  from forecast_demand_dates [OF ok] src last
  have "map fc_date (forecasts forecast_expected) = map (\<lambda>k. 19726 + 1 + int k) [0..<nat 3]"
    by auto
  also have "\<dots> = [19727, 19728, 19729]"
    by (simp add: upt_rec numeral_nat)
  finally have dates: "map fc_date (forecasts forecast_expected) = [19727, 19728, 19729]" .
  have "length (forecasts forecast_expected) = 3"
    by (simp add: forecast_expected_def)
  with ok last dates show ?thesis by simp
qed

text \<open>
  C9. For every context (the empty one and one without any valid date included),
  equipment type, site and future date, the confidence computed lies within
  \<open>[0.3, 0.95]\<close>, and so does the rounded confidence of every point of a successful
  forecast.
\<close>

theorem forecast_confidence_range:
  "0.3 \<le> calculate_forecast_confidence fd et sid d \<and>
   calculate_forecast_confidence fd et sid d \<le> 0.95 \<and>
   0.3 \<le> py_round (calculate_forecast_confidence fd et sid d) 2 \<and>
   py_round (calculate_forecast_confidence fd et sid d) 2 \<le> 0.95 \<and>
   (\<forall>self db n res f.
      forecast_demand self db et sid n = Inr res \<longrightarrow> f \<in> set (forecasts res) \<longrightarrow>
        0.3 \<le> confidence f \<and> confidence f \<le> 0.95)"
proof (intro conjI allI impI)
  show "0.3 \<le> calculate_forecast_confidence fd et sid d"
    and "calculate_forecast_confidence fd et sid d \<le> 0.95"
    using confidence_clamped by blast+
  show "0.3 \<le> py_round (calculate_forecast_confidence fd et sid d) 2"
    and "py_round (calculate_forecast_confidence fd et sid d) 2 \<le> 0.95"
    using confidence_rounded by blast+
next
  fix self db n res f
  assume ok: "forecast_demand self db et sid n = Inr res" and f: "f \<in> set (forecasts res)"
  from forecast_demand_point [OF ok f] obtain frame day where
    day: "forecast_day self et sid (filter_frame et sid frame) day = Some f"
    by blast
  from forecast_day_fields(3) [OF day] confidence_rounded
  show "0.3 \<le> confidence f" and "confidence f \<le> 0.95"
    by simp_all
qed

theorem forecast_confidence_range_witness:
  "calculate_forecast_confidence [] None None 5 = 0.3 \<and>
   forecast_demand trained_system (Some forecast_frame) None None 3 = Inr forecast_expected \<and>
   forecasts forecast_expected ! 0 \<in> set (forecasts forecast_expected) \<and>
   confidence (forecasts forecast_expected ! 0) = 0.42 \<and>
   0.3 \<le> confidence (forecasts forecast_expected ! 0) \<and>
   confidence (forecasts forecast_expected ! 0) \<le> 0.95"
proof -
  have z: "calculate_forecast_confidence [] None None 5 = 0.3"
    by (simp add: calculate_forecast_confidence_def truthy_def)
  have ok: "forecast_demand trained_system (Some forecast_frame) None None 3
              = Inr forecast_expected"
    by (rule forecast_expected_evaluated)
  have f: "forecasts forecast_expected ! 0 \<in> set (forecasts forecast_expected)"
    and c: "confidence (forecasts forecast_expected ! 0) = 0.42"
    by (simp_all add: forecast_expected_def)
  from forecast_confidence_range [of "[]" None None 5] ok f
  have "0.3 \<le> confidence (forecasts forecast_expected ! 0) \<and>
        confidence (forecasts forecast_expected ! 0) \<le> 0.95"
    by blast
  with z ok f c show ?thesis by blast
qed

text \<open>
  C2, evaluated. With a site that has a per-site model and a type given, the per-site
  model is the one used, and it is handed the first 8 of the 14 prepared features: type
  code, site code, month, day of week, quarter, weekend flag, seasonal factor and site
  equipment count. The 8 columns it was trained on are type code, month, day of week,
  quarter, weekend flag, seasonal factor and the two demand averages, which would select
  other values from the same 14.
\<close>

theorem site_model_features_evaluated:
  "uses_site_model trained_system (Some ''Excavator'') (Some ''S1'') \<and>
   prepare_forecast_features trained_system (Some ''Excavator'') (Some ''S1'') 19727
       forecast_frame
     = Some [Fin 1, Fin 0, Fin 1, Fin 4, Fin 1, Fin 0, Fin (7/10), Fin 2, Fin (3/4), Fin 1,
             Fin 2, Fin 8, Fin 30, Fin (3/4)] \<and>
   site_features [Fin 1, Fin 0, Fin 1, Fin 4, Fin 1, Fin 0, Fin (7/10), Fin 2, Fin (3/4),
                  Fin 1, Fin 2, Fin 8, Fin 30, Fin (3/4)]
     = [Fin 1, Fin 0, Fin 1, Fin 4, Fin 1, Fin 0, Fin (7/10), Fin 2] \<and>
   map (map_of (zip feature_columns
          [Fin 1, Fin 0, Fin 1, Fin 4, Fin 1, Fin 0, Fin (7/10), Fin 2, Fin (3/4), Fin 1,
           Fin 2, Fin 8, Fin 30, Fin (3/4)])) site_feature_columns
     = [Some (Fin 1), Some (Fin 1), Some (Fin 4), Some (Fin 1), Some (Fin 0),
        Some (Fin (7/10)), Some (Fin 2), Some (Fin 8)] \<and>
   take 8 feature_columns =
     [''equipment_type_encoded'', ''site_encoded'', ''month'', ''day_of_week'',
      ''quarter'', ''is_weekend'', ''seasonal_factor'', ''site_equipment_count''] \<and>
   take 8 feature_columns \<noteq> site_feature_columns"
  by (simp add: forecast_defs feature_columns_def site_feature_columns_def)

section \<open>Claims about the formulas of the two paths\<close>

text \<open>
  C3, evaluated. At six engine hours and two idle hours preprocessing gives the
  efficiency score \<open>(6 * 0.6 + 22 * 0.4) / 24 = 31/60\<close>, the live paths give
  \<open>0.75 * (6 / 8) = 9/16\<close>. At zero hours preprocessing gives utilization 0 and
  efficiency 0.4, anomaly detection gives 0.5 and 0.5, and the live frame for
  forecasting gives 0.5 and 0.
\<close>

theorem utilization_efficiency_paths_evaluated:
  "preprocess_efficiency_score (Fin 6) (Fin 2) = Fin (31/60) \<and>
   anomaly_efficiency_score (Fin 6) (Fin 2) = Fin (9/16) \<and>
   db_efficiency_score (Fin 6) (Fin 2) = Fin (9/16) \<and>
   preprocess_utilization_ratio (Fin 6) (Fin 2) = Fin (3/4) \<and>
   anomaly_utilization_ratio (Fin 6) (Fin 2) = Fin (3/4) \<and>
   db_utilization_ratio (Fin 6) (Fin 2) = Fin (3/4) \<and>
   preprocess_utilization_ratio (Fin 0) (Fin 0) = Fin 0 \<and>
   anomaly_utilization_ratio (Fin 0) (Fin 0) = Fin (1/2) \<and>
   db_utilization_ratio (Fin 0) (Fin 0) = Fin (1/2) \<and>
   preprocess_efficiency_score (Fin 0) (Fin 0) = Fin (2/5) \<and>
   anomaly_efficiency_score (Fin 0) (Fin 0) = Fin (1/2) \<and>
   db_efficiency_score (Fin 0) (Fin 0) = Fin 0"
  by (simp add: preprocess_efficiency_score_def anomaly_efficiency_score_def
      db_efficiency_score_def preprocess_utilization_ratio_def anomaly_utilization_ratio_def
      db_utilization_ratio_def fillna_def fsub_def fgt_def)

text \<open>
  C4, evaluated. A live record with zero engine hours and zero idle hours gets the
  utilization 0.5 from \<open>detect_anomalies\<close> and from the calculated columns of the live
  frame, where preprocessing gives 0; it is not reported as an anomaly.
\<close>

theorem utilization_ratio_zero_hours_evaluated:
  "preprocess_utilization_ratio (Fin 0) (Fin 0) = Fin 0 \<and>
   anomaly_utilization_ratio (Fin 0) (Fin 0) = Fin (1/2) \<and>
   db_utilization_ratio (Fin 0) (Fin 0) = Fin (1/2) \<and>
   utilization_ratio (calculate_metrics (live_row ''EQ9'' ''Crane'' ''S1'' 0 0)) = Fin (1/2) \<and>
   scan_row (calculate_metrics (live_row ''EQ9'' ''Crane'' ''S1'' 0 0)) = None"
  by (simp add: preprocess_utilization_ratio_def db_utilization_ratio_def scenario_defs)

section \<open>Claims about training and reload\<close>

text \<open>
  C6, as amended. When the frame has fewer than 50 rows, or fewer than 30 rows without a
  null feature, \<open>_train_models\<close> returns without touching the object. If the object was
  untrained, as it is whenever the constructor reaches \<open>_train_models\<close>, it stays
  untrained and every later call of \<open>forecast_demand\<close> and of \<open>detect_anomalies\<close>
  returns the error "Models not trained". So does the object that the constructor
  returns for such a dataset when it loads no complete set of saved models. (When the
  constructor does load the saved models it never trains, and the object is flagged
  trained whatever the size of the dataset.)
\<close>

theorem train_models_insufficient_data:
  "(\<forall>L self frame.
      data self = Some frame \<longrightarrow>
      (length frame < 50 \<or> length (dropna feature_columns frame) < 30) \<longrightarrow>
        train_models L self = self \<and>
        (\<not> models_trained self \<longrightarrow>
           \<not> models_trained (train_models L self) \<and>
           (\<forall>db et sid n.
              forecast_demand (train_models L self) db et sid n = Inl Models_not_trained) \<and>
           (\<forall>cnt db eid.
              detect_anomalies (train_models L self) cnt db eid = Inl Models_not_trained))) \<and>
   (\<forall>env raw frame ee se.
      read_csv env = Some raw \<longrightarrow>
      preprocess_data env raw = Some (frame, ee, se) \<longrightarrow>
      (saved_models env = None \<or>
       (\<exists>dir. saved_models env = Some dir \<and>
          \<not> snd (try_load_models dir
                  (unfitted\<lparr>data := Some frame, equipment_encoder := ee,
                            site_encoder := se\<rparr>)))) \<longrightarrow>
      (length frame < 50 \<or> length (dropna feature_columns frame) < 30) \<longrightarrow>
        (\<exists>s. SmartMLSystem env = Some s \<and> \<not> models_trained s \<and>
           (\<forall>db et sid n. forecast_demand s db et sid n = Inl Models_not_trained) \<and>
           (\<forall>cnt db eid. detect_anomalies s cnt db eid = Inl Models_not_trained)))"
proof -
  have A: "train_models L self = self \<and>
        (\<not> models_trained self \<longrightarrow>
           \<not> models_trained (train_models L self) \<and>
           (\<forall>db et sid n.
              forecast_demand (train_models L self) db et sid n = Inl Models_not_trained) \<and>
           (\<forall>cnt db eid.
              detect_anomalies (train_models L self) cnt db eid = Inl Models_not_trained))"
    if d: "data self = Some frame"
      and short: "length frame < 50 \<or> length (dropna feature_columns frame) < 30"
    for L :: learner and self :: smart_ml_system and frame
  proof -
    from d short have same: "train_models L self = self"
      by (rule train_models_early_return)
    show ?thesis
      unfolding same using untrained_calls [of self] by simp
  qed
  have B: "\<exists>s. SmartMLSystem env = Some s \<and> \<not> models_trained s \<and>
           (\<forall>db et sid n. forecast_demand s db et sid n = Inl Models_not_trained) \<and>
           (\<forall>cnt db eid. detect_anomalies s cnt db eid = Inl Models_not_trained)"
    if "read_csv env = Some raw" and "preprocess_data env raw = Some (frame, ee, se)"
      and "saved_models env = None \<or>
       (\<exists>dir. saved_models env = Some dir \<and>
          \<not> snd (try_load_models dir
                  (unfitted\<lparr>data := Some frame, equipment_encoder := ee,
                            site_encoder := se\<rparr>)))"
      and "length frame < 50 \<or> length (dropna feature_columns frame) < 30"
    for env raw frame ee se
  proof -
    from that obtain s where s: "SmartMLSystem env = Some s" and u: "\<not> models_trained s"
      using SmartMLSystem_insufficient_data by blast
    from s u untrained_calls [OF u] show ?thesis by blast
  qed
  show ?thesis
    apply (intro conjI allI impI)
    using A B by blast+
qed

text \<open>
  The amended claim at work: 20 rows; 50 rows of which 25 are clean; and a construction
  on the 20 rows without a models directory.
\<close>

theorem train_models_insufficient_data_witness:
  "data (unfitted\<lparr>data := Some small_frame\<rparr>) = Some small_frame \<and>
   length small_frame = 20 \<and>
   \<not> models_trained (unfitted\<lparr>data := Some small_frame\<rparr>) \<and>
   \<not> models_trained (train_models raising_learner (unfitted\<lparr>data := Some small_frame\<rparr>)) \<and>
   forecast_demand (train_models raising_learner (unfitted\<lparr>data := Some small_frame\<rparr>))
       (Some forecast_frame) None None 3 = Inl Models_not_trained \<and>
   detect_anomalies (train_models raising_learner (unfitted\<lparr>data := Some small_frame\<rparr>))
       151 (Some scenario_snapshot) None = Inl Models_not_trained \<and>
   length mostly_null_frame = 50 \<and>
   length (dropna feature_columns mostly_null_frame) = 25 \<and>
   forecast_demand
       (train_models raising_learner (unfitted\<lparr>data := Some mostly_null_frame\<rparr>))
       (Some forecast_frame) None None 3 = Inl Models_not_trained \<and>
   map_option models_trained (SmartMLSystem small_environment) = Some False \<and>
   map_option (\<lambda>s. forecast_demand s (Some forecast_frame) None None 3)
       (SmartMLSystem small_environment) = Some (Inl Models_not_trained)"
proof -
  note T = train_models_insufficient_data
  have u: "\<not> models_trained (unfitted\<lparr>data := Some small_frame\<rparr>)"
    and d: "data (unfitted\<lparr>data := Some small_frame\<rparr>) = Some small_frame"
    and u2: "\<not> models_trained (unfitted\<lparr>data := Some mostly_null_frame\<rparr>)"
    and d2: "data (unfitted\<lparr>data := Some mostly_null_frame\<rparr>) = Some mostly_null_frame"
    by (simp_all add: unfitted_def)
  have n: "length small_frame = 20" by (simp add: small_frame_def)
  then have short: "length small_frame < 50 \<or> length (dropna feature_columns small_frame) < 30"
    by simp
  have short2: "length mostly_null_frame < 50 \<or>
                length (dropna feature_columns mostly_null_frame) < 30"
    by (simp add: mostly_null_frame_counts)
  from T d short u have a: "\<not> models_trained
      (train_models raising_learner (unfitted\<lparr>data := Some small_frame\<rparr>))"
    by blast
  from T d short u have b: "forecast_demand
      (train_models raising_learner (unfitted\<lparr>data := Some small_frame\<rparr>))
      (Some forecast_frame) None None 3 = Inl Models_not_trained"
    by blast
  from T d short u have c: "detect_anomalies
      (train_models raising_learner (unfitted\<lparr>data := Some small_frame\<rparr>))
      151 (Some scenario_snapshot) None = Inl Models_not_trained"
    by blast
  from T d2 short2 u2 have b2: "forecast_demand
      (train_models raising_learner (unfitted\<lparr>data := Some mostly_null_frame\<rparr>))
      (Some forecast_frame) None None 3 = Inl Models_not_trained"
    by blast
  have e1: "read_csv small_environment = Some small_frame"
    and e2: "preprocess_data small_environment small_frame =
               Some (small_frame, equipment_encoder trained_system, site_encoder trained_system)"
    and e3: "saved_models small_environment = None"
    by (simp_all add: small_environment_def small_saved_environment_def)
  note C = T [THEN conjunct2, rule_format, OF e1 e2 disjI1 [OF e3] short]
  from C obtain s where
    s: "SmartMLSystem small_environment = Some s" and su: "\<not> models_trained s"
    and sf: "forecast_demand s (Some forecast_frame) None None 3 = Inl Models_not_trained"
    by blast
  from s su sf have k: "map_option models_trained (SmartMLSystem small_environment) = Some False"
    and k2: "map_option (\<lambda>s. forecast_demand s (Some forecast_frame) None None 3)
       (SmartMLSystem small_environment) = Some (Inl Models_not_trained)"
    by simp_all
  from u d n a b c b2 k k2 mostly_null_frame_counts show ?thesis by blast
qed

text \<open>
  C6 as stated fails when saved models exist: the constructor reads 20 rows, loads the
  models directory, never reaches \<open>_train_models\<close>, and the object is flagged trained
  and answers a forecast request with numbers.
\<close>

theorem saved_models_small_dataset_counterexample:
  "length small_frame < 50 \<and>
   map_option data (SmartMLSystem small_saved_environment) = Some (Some small_frame) \<and>
   map_option models_trained (SmartMLSystem small_saved_environment) = Some True \<and>
   map_option (\<lambda>s. forecast_demand s (Some forecast_frame) None None 3)
       (SmartMLSystem small_saved_environment) = Some (Inr forecast_expected)"
proof -
  have n: "length small_frame < 50" by (simp add: small_frame_def)
  have f: "forecast_demand
      \<lparr>data = Some small_frame, scaler = (\<lambda>v. Some v),
       demand_forecaster = (\<lambda>v. Some 3), site_specific_models = Map.empty,
       equipment_encoder = equipment_encoder trained_system,
       site_encoder = site_encoder trained_system, models_trained = True\<rparr>
      (Some forecast_frame) None None 3 = Inr forecast_expected"
    by (simp add: forecast_defs forecast_expected_def)
  show ?thesis
    unfolding small_saved_construction using n f by simp
qed

text \<open>
  C5, evaluated. A trained system is serving; a database change triggers a reload whose
  training raises at its last step. The exception is caught inside \<open>_train_models\<close>, the
  constructor returns an object with \<open>models_trained = False\<close>, and that object replaces
  the serving one: the next forecast and anomaly requests get "Models not trained". The
  same happens when the reload cannot read the CSV file, which \<open>_load_data\<close> catches.
\<close>

theorem failed_retrain_replaces_system_evaluated:
  "map_option models_trained (ml_system serving) = Some True \<and>
   map_option (\<lambda>s. forecast_demand s (Some forecast_frame) None None 3) (ml_system serving)
     = Some (Inr forecast_expected) \<and>
   map_option models_trained (SmartMLSystem reload_environment) = Some False \<and>
   map_option models_trained (ml_system (on_database_change reload_environment serving))
     = Some False \<and>
   map_option (\<lambda>s. forecast_demand s (Some forecast_frame) None None 3)
       (ml_system (on_database_change reload_environment serving))
     = Some (Inl Models_not_trained) \<and>
   map_option (\<lambda>s. detect_anomalies s 151 (Some scenario_snapshot) None)
       (ml_system (on_database_change reload_environment serving))
     = Some (Inl Models_not_trained) \<and>
   map_option models_trained (ml_system (on_database_change unreadable_environment serving))
     = Some False \<and>
   map_option (\<lambda>s. forecast_demand s (Some forecast_frame) None None 3)
       (ml_system (on_database_change unreadable_environment serving))
     = Some (Inl Models_not_trained)"
proof -
  from unreadable_constructs_untrained obtain s' where
    c': "SmartMLSystem unreadable_environment = Some s'" and u': "\<not> models_trained s'"
    by blast
  from reload_constructs_untrained obtain s where
    c: "SmartMLSystem reload_environment = Some s" and u: "\<not> models_trained s"
    by blast
  have idle: "\<not> is_reloading serving" by (simp add: serving_def)
  have r: "ml_system (on_database_change reload_environment serving) = Some s"
    using idle c by (rule on_database_change_constructor_returns)
  have before: "ml_system serving = Some trained_system" by (simp add: serving_def)
  have t: "models_trained trained_system" by (simp add: trained_system_def)
  have r': "ml_system (on_database_change unreadable_environment serving) = Some s'"
    using idle c' by (rule on_database_change_constructor_returns)
  show ?thesis
    unfolding r r' c before
    using u u' t untrained_calls [OF u] untrained_calls [OF u'] forecast_expected_evaluated
    by simp
qed

end
